theory Spec2Isabelle
  imports Main
begin

section \<open>JavaScript values\<close>

text \<open>
  Response bodies, the user snapshot and error messages are untyped in the source
  (\<open>response.data\<close> is \<open>any\<close>), so they are modelled by a datatype of JavaScript
  values. A number is held as the text that \<open>String(n)\<close> gives for it; a string is the
  list of its code units; an object lists each of its keys once.
\<close>

datatype jsval =
    Undefined
  | Null
  | Bool bool
  | Num string
  | Str string
  | Arr "jsval list"
  | Obj "(string \<times> jsval) list"

text \<open>\<open>!!v\<close>, the test of \<open>if (v)\<close> and of \<open>a || b\<close>.\<close>

fun truthy :: "jsval \<Rightarrow> bool" where
  "truthy Undefined = False"
| "truthy Null = False"
| "truthy (Bool b) = b"
| "truthy (Num s) = (s \<noteq> ''0'' \<and> s \<noteq> ''NaN'')"
| "truthy (Str s) = (s \<noteq> [])"
| "truthy (Arr xs) = True"
| "truthy (Obj kvs) = True"

definition or_js :: "jsval \<Rightarrow> jsval \<Rightarrow> jsval" where
  "or_js a b = (if truthy a then a else b)"

fun join_comma :: "string list \<Rightarrow> string" where
  "join_comma [] = []"
| "join_comma [s] = s"
| "join_comma (s # t # ss) = s @ '','' @ join_comma (t # ss)"

text \<open>
  The conversion to a string that \<open>localStorage.setItem\<close> and a template literal
  apply to their argument.
\<close>

fun to_string :: "jsval \<Rightarrow> string" where
  "to_string Undefined = ''undefined''"
| "to_string Null = ''null''"
| "to_string (Bool b) = (if b then ''true'' else ''false'')"
| "to_string (Num s) = s"
| "to_string (Str s) = s"
| "to_string (Arr xs) =
     join_comma (map (\<lambda>x. if x = Null \<or> x = Undefined then [] else to_string x) xs)"
| "to_string (Obj kvs) = ''[object Object]''"

text \<open>
  \<open>v.k\<close> for a value that is neither \<open>null\<close> nor \<open>undefined\<close> and a key \<open>k\<close> that
  names a field of a response body: only an object can have it.
\<close>

fun get_prop :: "jsval \<Rightarrow> string \<Rightarrow> jsval" where
  "get_prop (Obj kvs) k = (case map_of kvs k of None \<Rightarrow> Undefined | Some v \<Rightarrow> v)"
| "get_prop v k = Undefined"

text \<open>\<open>v?.k\<close>: \<open>undefined\<close> when \<open>v\<close> is \<open>null\<close> or \<open>undefined\<close>.\<close>

definition nullish :: "jsval \<Rightarrow> bool" where
  "nullish v = (v = Null \<or> v = Undefined)"

definition opt_prop :: "jsval \<Rightarrow> string \<Rightarrow> jsval" where
  "opt_prop v k = (if nullish v then Undefined else get_prop v k)"

text \<open>\<open>v?.[0]\<close>.\<close>

fun opt_first :: "jsval \<Rightarrow> jsval" where
  "opt_first (Arr (x # xs)) = x"
| "opt_first (Str (c # cs)) = Str [c]"
| "opt_first (Obj kvs) = get_prop (Obj kvs) ''0''"
| "opt_first v = Undefined"

text \<open>\<open>Array.isArray(v) ? v[0] : v\<close>.\<close>

fun first_if_array :: "jsval \<Rightarrow> jsval" where
  "first_if_array (Arr []) = Undefined"
| "first_if_array (Arr (x # xs)) = x"
| "first_if_array v = v"

section \<open>The HTTP client\<close>

text \<open>
  The request configuration of axios, with the fields the code reads or writes:
  \<open>config.headers.Authorization\<close>, \<open>config.data\<close> and the marker \<open>config._retry\<close>
  that the response interceptor adds. axios hands the configuration of a failed request
  back in \<open>error.config\<close>, marker included, and \<open>api(error.config)\<close> sends that
  request again.
\<close>

record config =
  meth :: string
  url :: string
  Authorization :: "string option"
  body :: jsval
  retry :: bool

record response =
  status :: nat
  data :: jsval

text \<open>
  What the network gives back for a request: a response, or none (transport failure,
  timeout).
\<close>

datatype net_result = Response response | NoResponse

text \<open>
  The values the code throws or rejects with: the error of axios (with \<open>error.config\<close>
  and, when the server answered, \<open>error.response\<close>), \<open>new Error(message)\<close>, and the
  \<open>TypeError\<close> of destructuring \<open>null\<close> or \<open>undefined\<close>.
\<close>

datatype js_error =
    AxiosError config "response option"
  | Error string
  | TypeError

text \<open>
  axios fulfils the promise of a request when the status is in \<open>[200, 300)\<close> and rejects
  it otherwise.
\<close>

definition ok :: "response \<Rightarrow> bool" where
  "ok r = (200 \<le> status r \<and> status r < 300)"

definition settle :: "config \<Rightarrow> net_result \<Rightarrow> js_error + response" where
  "settle cfg nr =
     (case nr of
        Response r \<Rightarrow> if ok r then Inr r else Inl (AxiosError cfg (Some r))
      | NoResponse \<Rightarrow> Inl (AxiosError cfg None))"

text \<open>
  Every request that leaves the client is logged with the client that sent it: the
  instance \<open>api\<close> (base URL \<open>http://127.0.0.1:8000/api/v1/\<close>, with both interceptors)
  or the bare \<open>axios\<close> (no interceptor).
\<close>

datatype call = Api config | Bare config

text \<open>
  The state the code reads and writes: \<open>localStorage\<close>, \<open>window.location.href\<close>, the
  two state variables of \<open>AuthProvider\<close>, and the log of the requests sent so far.
  An assignment to \<open>window.location.href\<close> starts a navigation; the script goes on
  running (the rejection of line 56 of the API module reaches its caller, and answers to
  requests in flight are handled) until the new page replaces it. The model records the
  assignment.
\<close>

record client =
  localStorage :: "string \<rightharpoonup> string"
  href :: string
  user :: jsval
  isLoading :: bool
  calls :: "call list"

definition setItem :: "string \<Rightarrow> jsval \<Rightarrow> client \<Rightarrow> client" where
  "setItem k v st = st\<lparr>localStorage := (localStorage st)(k \<mapsto> to_string v)\<rparr>"

definition removeItem :: "string \<Rightarrow> client \<Rightarrow> client" where
  "removeItem k st = st\<lparr>localStorage := (localStorage st)(k := None)\<rparr>"

text \<open>\<open>localStorage.getItem(k)\<close> as a JavaScript value: \<open>null\<close> when the key is absent.\<close>

definition getItem :: "string \<Rightarrow> client \<Rightarrow> jsval" where
  "getItem k st = (case localStorage st k of None \<Rightarrow> Null | Some s \<Rightarrow> Str s)"

section \<open>services/api.ts\<close>

text \<open>
  The API module, which the session code imports as \<open>../services/api\<close>. Line numbers
  in this section are those of the module.
\<close>

text \<open>The header value \<open>`Bearer ${token}`\<close> of lines 17 and 49.\<close>

definition bearer :: "string \<Rightarrow> string" where
  "bearer token = ''Bearer '' @ token"

text \<open>The request interceptor (lines 13 to 24).\<close>

definition request_interceptor :: "client \<Rightarrow> config \<Rightarrow> config" where
  "request_interceptor st cfg =
     (let token = getItem ''access_token'' st
      in if truthy token
         then cfg\<lparr>Authorization := Some (bearer (to_string token))\<rparr>
         else cfg)"

text \<open>
  A call of the instance, \<open>api(config)\<close>, up to the moment the request is on the wire:
  the request interceptor runs, then the request is sent.
\<close>

definition dispatch :: "client \<Rightarrow> config \<Rightarrow> config \<times> client" where
  "dispatch st cfg =
     (let cfg1 = request_interceptor st cfg
      in (cfg1, st\<lparr>calls := calls st @ [Api cfg1]\<rparr>))"

text \<open>The refresh request of line 41, sent with the bare \<open>axios\<close>.\<close>

definition refresh_request :: "string \<Rightarrow> config" where
  "refresh_request refreshToken =
     \<lparr>meth = ''POST'', url = ''http://127.0.0.1:8000/api/v1/auth/token/refresh/'',
      Authorization = None, body = Obj [(''refresh'', Str refreshToken)], retry = False\<rparr>"

text \<open>
  The response interceptor is an async function with one \<open>await\<close> (line 41). It is
  modelled by the two pieces of code that run without interruption: from the arrival of
  the response to the \<open>await\<close> (\<open>on_response\<close>), and from the arrival of the refresh
  response to the end (\<open>on_refresh\<close>). A piece ends with the promise of the original
  call settled, or with a request in flight.
\<close>

datatype after_response =
    Settled "js_error + response" client
  | Refreshing config config client

datatype after_refresh =
    Failed js_error client
  | Resent config client

text \<open>
  The effect of the \<open>catch\<close> block (lines 53 to 55); line 56 rejects with the error
  caught.
\<close>

definition refresh_failed :: "client \<Rightarrow> client" where
  "refresh_failed st =
     (let st1 = removeItem ''access_token'' st;
          st2 = removeItem ''refresh_token'' st1
      in st2\<lparr>href := ''/login''\<rparr>)"

text \<open>
  Lines 28 to 43 and line 60. On the branch that refreshes, the result carries the
  original request with \<open>_retry\<close> set, the refresh request, and the state after the
  refresh request has been sent.
\<close>

definition on_response :: "client \<Rightarrow> config \<Rightarrow> net_result \<Rightarrow> after_response" where
  "on_response st cfg nr =
     (case settle cfg nr of
        Inr r \<Rightarrow> Settled (Inr r) st
      | Inl error \<Rightarrow>
          if (case nr of Response r \<Rightarrow> status r = 401 | NoResponse \<Rightarrow> False) \<and> \<not> retry cfg
          then
            (let originalRequest = cfg\<lparr>retry := True\<rparr>;
                 refreshToken = getItem ''refresh_token'' st
             in if \<not> truthy refreshToken
                then Settled (Inl (Error ''No refresh token'')) (refresh_failed st)
                else
                  (let rcfg = refresh_request (to_string refreshToken)
                   in Refreshing originalRequest rcfg (st\<lparr>calls := calls st @ [Bare rcfg]\<rparr>)))
          else Settled (Inl error) st)"

text \<open>
  Lines 45 to 57, after the \<open>await\<close>. Destructuring \<open>response.data\<close> throws when the
  body is \<open>null\<close>; the promise returned on line 50 is not awaited inside the \<open>try\<close>, so
  a failure of the resent request does not reach the \<open>catch\<close>.
\<close>

definition on_refresh :: "client \<Rightarrow> config \<Rightarrow> config \<Rightarrow> net_result \<Rightarrow> after_refresh" where
  "on_refresh st originalRequest rcfg nr =
     (case settle rcfg nr of
        Inl refreshError \<Rightarrow> Failed refreshError (refresh_failed st)
      | Inr r \<Rightarrow>
          if nullish (data r) then Failed TypeError (refresh_failed st)
          else
            (let access = get_prop (data r) ''access'';
                 st1 = setItem ''access_token'' access st;
                 originalRequest1 =
                   originalRequest\<lparr>Authorization := Some (bearer (to_string access))\<rparr>;
                 (cfg2, st2) = dispatch st1 originalRequest1
             in Resent cfg2 st2))"

text \<open>
  The server and the network are a parameter: a function from the log of the requests
  sent so far (the last one is the request being answered) to what comes back. The
  direct-style functions below complete each request as soon as it is sent.
\<close>

type_synonym server = "call list \<Rightarrow> net_result"

text \<open>
  The promise of \<open>api(config)\<close> from the moment the request is on the wire: the
  response interceptor runs on what comes back, and its line 50 calls the instance
  again. The recursion ends because the resent request carries \<open>_retry\<close>.
\<close>

function api_await :: "server \<Rightarrow> client \<Rightarrow> config \<Rightarrow> (js_error + response) \<times> client" where
  "api_await srv st cfg =
     (case on_response st cfg (srv (calls st)) of
        Settled res st1 \<Rightarrow> (res, st1)
      | Refreshing originalRequest rcfg st1 \<Rightarrow>
          (case on_refresh st1 originalRequest rcfg (srv (calls st1)) of
             Failed refreshError st2 \<Rightarrow> (Inl refreshError, st2)
           | Resent cfg2 st2 \<Rightarrow> api_await srv st2 cfg2))"
  by pat_completeness auto
termination
proof (relation "measure (\<lambda>(srv, st, cfg). if retry cfg then 0 else 1)")
  show "wf (measure (\<lambda>(srv, st, cfg). if retry cfg then 0 else (1::nat)))"
    by simp
next
  fix srv :: server and st :: client and cfg originalRequest rcfg :: config
    and st1 :: client and cfg2 :: config and st2 :: client
  assume a: "on_response st cfg (srv (calls st)) = Refreshing originalRequest rcfg st1"
    and b: "on_refresh st1 originalRequest rcfg (srv (calls st1)) = Resent cfg2 st2"
  from a have "\<not> retry cfg \<and> retry originalRequest"
    by (auto simp: on_response_def Let_def split: sum.splits if_splits)
  moreover from b have "retry cfg2 = retry originalRequest"
    by (auto simp: on_refresh_def dispatch_def request_interceptor_def Let_def
          split: sum.splits if_splits)
  ultimately show "((srv, st2, cfg2), (srv, st, cfg))
      \<in> measure (\<lambda>(srv, st, cfg). if retry cfg then 0 else 1)"
    by simp
qed

declare api_await.simps [simp del]

definition api :: "server \<Rightarrow> client \<Rightarrow> config \<Rightarrow> (js_error + response) \<times> client" where
  "api srv st cfg = (let (cfg1, st1) = dispatch st cfg in api_await srv st1 cfg1)"

text \<open>The requests of \<open>authAPI\<close> that the session code uses (lines 65 to 80).\<close>

record credentials =
  email :: string
  password :: string

record user_data = credentials +
  first_name :: string
  last_name :: string
  phone_number :: string

definition login_request :: "credentials \<Rightarrow> config" where
  "login_request c =
     \<lparr>meth = ''POST'', url = ''auth/token/'', Authorization = None,
      body = Obj [(''email'', Str (email c)), (''password'', Str (password c))],
      retry = False\<rparr>"

definition register_request :: "jsval \<Rightarrow> config" where
  "register_request registrationData =
     \<lparr>meth = ''POST'', url = ''auth/user/register/'', Authorization = None,
      body = registrationData, retry = False\<rparr>"

definition logout_request :: config where
  "logout_request =
     \<lparr>meth = ''POST'', url = ''auth/logout/'', Authorization = None, body = Undefined,
      retry = False\<rparr>"

definition profile_request :: config where
  "profile_request =
     \<lparr>meth = ''GET'', url = ''auth/user/profile/'', Authorization = None, body = Undefined,
      retry = False\<rparr>"

section \<open>contexts/AuthContext.tsx\<close>

text \<open>
  \<open>AuthProvider\<close>. The module is held in the file \<open>components/layout/Layout.tsx\<close>,
  from line 400 on; line numbers in this section are those of that file.
\<close>

text \<open>The value \<open>{ success, error }\<close> that \<open>login\<close> and \<open>register\<close> resolve to.\<close>

record auth_result =
  success :: bool
  error :: jsval

text \<open>\<open>error.response?.data\<close>.\<close>

definition error_data :: "js_error \<Rightarrow> jsval" where
  "error_data e = (case e of AxiosError cfg (Some r) \<Rightarrow> data r | _ \<Rightarrow> Undefined)"

text \<open>Lines 473 to 475.\<close>

definition login_error_message :: "js_error \<Rightarrow> jsval" where
  "login_error_message e =
     or_js (opt_first (opt_prop (error_data e) ''non_field_errors''))
       (or_js (opt_prop (error_data e) ''detail'')
          (Str ''Login failed. Please check your credentials.''))"

text \<open>
  \<open>login\<close> after its \<open>await\<close> (lines 461 to 479): the \<open>try\<close> body from the
  destructuring on, the \<open>catch\<close> and the \<open>finally\<close>.
\<close>

definition login_settled :: "client \<Rightarrow> js_error + response \<Rightarrow> auth_result \<times> client" where
  "login_settled st res =
     (case (case res of
              Inl e \<Rightarrow> Inl e
            | Inr r \<Rightarrow> if nullish (data r) then Inl TypeError else Inr r) of
        Inr r \<Rightarrow>
          (let access = get_prop (data r) ''access'';
               refresh = get_prop (data r) ''refresh'';
               userData = get_prop (data r) ''user'';
               st1 = setItem ''access_token'' access st;
               st2 = setItem ''refresh_token'' refresh st1;
               st3 = st2\<lparr>user := userData\<rparr>
           in (\<lparr>success = True, error = Undefined\<rparr>, st3\<lparr>isLoading := False\<rparr>))
      | Inl e \<Rightarrow>
          (\<lparr>success = False, error = login_error_message e\<rparr>, st\<lparr>isLoading := False\<rparr>))"

definition login :: "server \<Rightarrow> client \<Rightarrow> credentials \<Rightarrow> auth_result \<times> client" where
  "login srv st c =
     (let st1 = st\<lparr>isLoading := True\<rparr>;
          (res, st2) = api srv st1 (login_request c)
      in login_settled st2 res)"

text \<open>Lines 508 to 522.\<close>

definition register_error_message :: "js_error \<Rightarrow> jsval" where
  "register_error_message e =
     (let errorData = error_data e
      in if truthy errorData then
           (if truthy (get_prop errorData ''email'')
              then first_if_array (get_prop errorData ''email'')
            else if truthy (get_prop errorData ''password'')
              then first_if_array (get_prop errorData ''password'')
            else if truthy (get_prop errorData ''non_field_errors'')
              then first_if_array (get_prop errorData ''non_field_errors'')
            else if truthy (get_prop errorData ''detail'')
              then get_prop errorData ''detail''
            else Str ''Registration failed. Please try again.'')
         else Str ''Registration failed. Please try again.'')"

text \<open>Lines 487 to 490: the data sent, with \<open>password_confirm\<close> mirrored from \<open>password\<close>.\<close>

definition registrationData :: "user_data \<Rightarrow> jsval" where
  "registrationData u =
     Obj [(''email'', Str (email u)), (''password'', Str (password u)),
          (''first_name'', Str (first_name u)), (''last_name'', Str (last_name u)),
          (''phone_number'', Str (phone_number u)),
          (''password_confirm'', Str (password u))]"

definition register_settled :: "client \<Rightarrow> js_error + response \<Rightarrow> auth_result \<times> client" where
  "register_settled st res =
     (case (case res of
              Inl e \<Rightarrow> Inl e
            | Inr r \<Rightarrow> if nullish (data r) then Inl TypeError else Inr r) of
        Inr r \<Rightarrow>
          (let access = get_prop (data r) ''access'';
               refresh = get_prop (data r) ''refresh'';
               newUser = get_prop (data r) ''user'';
               st1 = setItem ''access_token'' access st;
               st2 = setItem ''refresh_token'' refresh st1;
               st3 = st2\<lparr>user := newUser\<rparr>
           in (\<lparr>success = True, error = Undefined\<rparr>, st3\<lparr>isLoading := False\<rparr>))
      | Inl e \<Rightarrow>
          (\<lparr>success = False, error = register_error_message e\<rparr>, st\<lparr>isLoading := False\<rparr>))"

definition register :: "server \<Rightarrow> client \<Rightarrow> user_data \<Rightarrow> auth_result \<times> client" where
  "register srv st u =
     (let st1 = st\<lparr>isLoading := True\<rparr>;
          (res, st2) = api srv st1 (register_request (registrationData u))
      in register_settled st2 res)"

text \<open>
  \<open>logout\<close> (lines 541 to 552) is synchronous: it returns with the notification in
  flight. \<open>logout_sync\<close> is the function body, giving the request as sent and the state
  it leaves.
\<close>

definition logout_sync :: "client \<Rightarrow> config \<times> client" where
  "logout_sync st =
     (let st1 = removeItem ''access_token'' st;
          st2 = removeItem ''refresh_token'' st1;
          st3 = st2\<lparr>user := Null\<rparr>;
          (cfg, st4) = dispatch st3 logout_request
      in (cfg, st4\<lparr>href := ''/''\<rparr>))"

text \<open>
  \<open>logout\<close> followed by the arrival of what the server answers to the notification;
  \<open>.catch(console.error)\<close> drops a rejection.
\<close>

definition logout :: "server \<Rightarrow> client \<Rightarrow> client" where
  "logout srv st = (let (cfg, st1) = logout_sync st in snd (api_await srv st1 cfg))"

text \<open>
  \<open>refreshUser\<close> after its \<open>await\<close> (lines 533 to 538). The \<open>logout\<close> it calls is a
  parameter: the direct-style \<open>logout srv\<close>, or \<open>logout_sync\<close> alone when the
  notification stays in flight.
\<close>

definition refreshUser_settled ::
  "(client \<Rightarrow> client) \<Rightarrow> client \<Rightarrow> js_error + response \<Rightarrow> (js_error + unit) \<times> client" where
  "refreshUser_settled logout_fn st res =
     (case res of
        Inr r \<Rightarrow> (Inr (), st\<lparr>user := data r\<rparr>)
      | Inl e \<Rightarrow> (Inl e, logout_fn st))"

definition refreshUser :: "server \<Rightarrow> client \<Rightarrow> (js_error + unit) \<times> client" where
  "refreshUser srv st =
     (let (res, st1) = api srv st profile_request
      in refreshUser_settled (logout srv) st1 res)"

text \<open>The effect of lines 439 to 454, run once when \<open>AuthProvider\<close> mounts.\<close>

definition initAuth :: "server \<Rightarrow> client \<Rightarrow> client" where
  "initAuth srv st =
     (let token = getItem ''access_token'' st;
          st2 = (if truthy token
                 then (case refreshUser srv st of
                         (Inr u, st1) \<Rightarrow> st1
                       | (Inl e, st1) \<Rightarrow> logout srv st1)
                 else st)
      in st2\<lparr>isLoading := False\<rparr>)"

definition isAuthenticated :: "client \<Rightarrow> bool" where
  "isAuthenticated st = truthy (user st)"

section \<open>pages/auth/RegisterPage.tsx\<close>

record form_data = user_data +
  confirmPassword :: string

text \<open>
  The state of the page: \<open>formData\<close>, \<open>error\<close> and \<open>isLoading\<close> (the last two renamed,
  the names being taken by the result of \<open>register\<close> and by \<open>AuthProvider\<close>).
\<close>

record register_page =
  formData :: form_data
  pageError :: jsval
  pageLoading :: bool

text \<open>
  \<open>handleSubmit\<close> (lines 40 to 70). \<open>navigate\<close> changes the location without loading
  a page; the model writes it to \<open>href\<close>.
\<close>

definition handleSubmit ::
  "server \<Rightarrow> register_page \<times> client \<Rightarrow> register_page \<times> client" where
  "handleSubmit srv ps =
     (let (pg, st) = ps;
          pg1 = pg\<lparr>pageLoading := True, pageError := Str []\<rparr>
      in if password (formData pg1) \<noteq> confirmPassword (formData pg1)
         then (pg1\<lparr>pageError := Str ''Passwords do not match'', pageLoading := False\<rparr>, st)
         else if length (password (formData pg1)) < 8
         then (pg1\<lparr>pageError := Str ''Password must be at least 8 characters long'',
                   pageLoading := False\<rparr>, st)
         else
           (let (result, st1) = register srv st (user_data.truncate (formData pg1))
            in if success result
               then (pg1\<lparr>pageLoading := False\<rparr>, st1\<lparr>href := ''/dashboard''\<rparr>)
               else (pg1\<lparr>pageError := or_js (error result) (Str ''Registration failed''),
                         pageLoading := False\<rparr>, st1)))"

section \<open>Responses that arrive while other requests are in flight\<close>

text \<open>
  The event loop runs one handler at a time. Several calls of the instance made before
  any answer arrives put their requests on the wire one after the other.
\<close>

fun dispatch_all :: "client \<Rightarrow> config list \<Rightarrow> config list \<times> client" where
  "dispatch_all st [] = ([], st)"
| "dispatch_all st (cfg # cfgs) =
     (let (cfg1, st1) = dispatch st cfg;
          (sent, st2) = dispatch_all st1 cfgs
      in (cfg1 # sent, st2))"

text \<open>
  When the responses to several requests of the instance arrive one after the other,
  \<open>on_response\<close> runs for each on the state the handlers before it left; what each
  handler ends with is collected.
\<close>

fun after_state :: "after_response \<Rightarrow> client" where
  "after_state (Settled res st) = st"
| "after_state (Refreshing originalRequest rcfg st) = st"

fun on_responses :: "client \<Rightarrow> (config \<times> net_result) list \<Rightarrow> after_response list \<times> client" where
  "on_responses st [] = ([], st)"
| "on_responses st ((cfg, nr) # rest) =
     (let p = on_response st cfg nr;
          (ps, st2) = on_responses (after_state p) rest
      in (p # ps, st2))"

text \<open>
  A group of calls in flight together: all requests are sent, then the answers arrive
  in the same order, before any refresh request has been answered.
\<close>

definition in_flight_group ::
  "client \<Rightarrow> config list \<Rightarrow> net_result list \<Rightarrow> after_response list \<times> client" where
  "in_flight_group st cfgs answers =
     (let (sent, st1) = dispatch_all st cfgs in on_responses st1 (zip sent answers))"

fun is_refreshing :: "after_response \<Rightarrow> bool" where
  "is_refreshing (Refreshing originalRequest rcfg st) = True"
| "is_refreshing (Settled res st) = False"

text \<open>
  \<open>logout\<close> called while the profile request of \<open>refreshUser\<close> is in flight: the
  request is sent, \<open>logout\<close> runs, and then the answer to the profile request arrives
  and \<open>refreshUser\<close> resumes. (With no refresh token left, the interceptor cannot go on
  to refresh; that branch leaves the state as the interceptor left it.)
\<close>

definition late_profile_response :: "client \<Rightarrow> net_result \<Rightarrow> client" where
  "late_profile_response st nr =
     (let (cfg, st1) = dispatch st profile_request;
          (notification, st2) = logout_sync st1
      in case on_response st2 cfg nr of
           Settled res st3 \<Rightarrow> snd (refreshUser_settled (\<lambda>s. snd (logout_sync s)) st3 res)
         | Refreshing originalRequest rcfg st3 \<Rightarrow> st3)"

section \<open>Observing a run\<close>

text \<open>
  The refresh requests and the requests of the instance in a log, and the requests sent
  between two states.
\<close>

definition is_refresh :: "call \<Rightarrow> bool" where
  "is_refresh c =
     (case c of
        Bare cfg \<Rightarrow> url cfg = ''http://127.0.0.1:8000/api/v1/auth/token/refresh/''
      | Api cfg \<Rightarrow> False)"

definition is_api :: "call \<Rightarrow> bool" where
  "is_api c = (case c of Api cfg \<Rightarrow> True | Bare cfg \<Rightarrow> False)"

definition sent_since :: "client \<Rightarrow> client \<Rightarrow> call list" where
  "sent_since st st' = drop (length (calls st)) (calls st')"

text \<open>
  A server that answers the \<open>n\<close>-th request sent with the \<open>n\<close>-th entry of a script,
  and does not answer once the script is used up.
\<close>

definition scripted :: "net_result list \<Rightarrow> server" where
  "scripted answers log =
     (if 0 < length log \<and> length log \<le> length answers
      then answers ! (length log - 1) else NoResponse)"

text \<open>
  Sample data: the requests of \<open>projectsAPI.getProjects()\<close> and
  \<open>inspectorsAPI.getInspectors()\<close> (lines 84 and 93 of the API module), a session with
  both tokens stored and a user in memory, a client with no session, and answers of the
  server.
\<close>

definition get_projects :: config where
  "get_projects =
     \<lparr>meth = ''GET'', url = ''projects/'', Authorization = None, body = Undefined,
      retry = False\<rparr>"

definition session0 :: client where
  "session0 =
     \<lparr>localStorage = [''access_token'' \<mapsto> ''A1'', ''refresh_token'' \<mapsto> ''R1''],
      href = ''/dashboard'',
      user = Obj [(''id'', Num ''7''), (''email'', Str ''amina@example.com'')],
      isLoading = False, calls = []\<rparr>"

definition unauthorized :: response where
  "unauthorized = \<lparr>status = 401, data = Obj [(''detail'', Str ''Token is invalid or expired'')]\<rparr>"

definition refreshed :: response where
  "refreshed = \<lparr>status = 200, data = Obj [(''access'', Str ''A2''), (''refresh'', Str ''R2'')]\<rparr>"

definition get_inspectors :: config where
  "get_inspectors =
     \<lparr>meth = ''GET'', url = ''inspectors/'', Authorization = None, body = Undefined,
      retry = False\<rparr>"

definition amina :: jsval where
  "amina = Obj [(''id'', Num ''7''), (''email'', Str ''amina@example.com'')]"

definition profile_ok :: response where
  "profile_ok = \<lparr>status = 200, data = amina\<rparr>"

definition anonymous0 :: client where
  "anonymous0 =
     \<lparr>localStorage = Map.empty, href = ''/login'', user = Null, isLoading = False,
      calls = []\<rparr>"

definition bad_request :: response where
  "bad_request =
     \<lparr>status = 400, data = Obj [(''non_field_errors'', Arr [Str ''Invalid credentials''])]\<rparr>"

definition reloaded0 :: client where
  "reloaded0 =
     \<lparr>localStorage = [''access_token'' \<mapsto> ''A1'', ''refresh_token'' \<mapsto> ''R1''],
      href = ''/dashboard'', user = Null, isLoading = True, calls = []\<rparr>"

definition server_error :: response where
  "server_error = \<lparr>status = 500, data = Str ''Internal Server Error''\<rparr>"

definition amina_credentials :: credentials where
  "amina_credentials = \<lparr>email = ''amina@example.com'', password = ''secret1234''\<rparr>"

definition short_form :: register_page where
  "short_form =
     \<lparr>formData =
        \<lparr>email = ''amina@example.com'', password = ''short'', first_name = ''Amina'',
         last_name = ''Diallo'', phone_number = ''+221770000000'', confirmPassword = ''short''\<rparr>,
      pageError = Str [], pageLoading = False\<rparr>"

section \<open>The interceptors, step by step\<close>

lemma on_response_retry: "retry cfg \<Longrightarrow> on_response st cfg nr = Settled (settle cfg nr) st"
  by (simp add: on_response_def split: sum.splits)

lemma on_response_other:
  "\<forall>r. nr = Response r \<longrightarrow> status r \<noteq> 401 \<Longrightarrow> on_response st cfg nr = Settled (settle cfg nr) st"
  by (auto simp: on_response_def split: sum.splits net_result.splits)

lemma settle_401: "status r = 401 \<Longrightarrow> settle cfg (Response r) = Inl (AxiosError cfg (Some r))"
  by (simp add: settle_def ok_def)

lemma on_response_401_no_token:
  "\<not> retry cfg \<Longrightarrow> status r = 401 \<Longrightarrow> \<not> truthy (getItem ''refresh_token'' st) \<Longrightarrow>
   on_response st cfg (Response r) = Settled (Inl (Error ''No refresh token'')) (refresh_failed st)"
  by (simp add: on_response_def settle_401 Let_def)

lemma on_response_401_token:
  "\<not> retry cfg \<Longrightarrow> status r = 401 \<Longrightarrow> localStorage st ''refresh_token'' = Some rt \<Longrightarrow> rt \<noteq> [] \<Longrightarrow>
   on_response st cfg (Response r) =
     Refreshing (cfg\<lparr>retry := True\<rparr>) (refresh_request rt)
       (st\<lparr>calls := calls st @ [Bare (refresh_request rt)]\<rparr>)"
  by (simp add: on_response_def settle_401 Let_def getItem_def)

lemma request_interceptor_after_set:
  "request_interceptor (setItem ''access_token'' v st) (cfg\<lparr>Authorization := Some (bearer (to_string v))\<rparr>)
     = cfg\<lparr>Authorization := Some (bearer (to_string v))\<rparr>"
  by (simp add: request_interceptor_def setItem_def getItem_def Let_def)

lemma on_refresh_ok:
  "ok r \<Longrightarrow> \<not> nullish (data r) \<Longrightarrow>
   on_refresh st orig rcfg (Response r) =
     (let a = to_string (get_prop (data r) ''access'');
          c = orig\<lparr>Authorization := Some (bearer a)\<rparr>
      in Resent c (st\<lparr>localStorage := (localStorage st)(''access_token'' \<mapsto> a),
                      calls := calls st @ [Api c]\<rparr>))"
  by (simp add: on_refresh_def settle_def Let_def dispatch_def request_interceptor_after_set)
     (simp add: setItem_def)

lemma on_refresh_rejected:
  "settle rcfg nr = Inl e \<Longrightarrow> on_refresh st orig rcfg nr = Failed e (refresh_failed st)"
  by (simp add: on_refresh_def)

lemma on_refresh_null:
  "ok r \<Longrightarrow> nullish (data r) \<Longrightarrow> on_refresh st orig rcfg (Response r) = Failed TypeError (refresh_failed st)"
  by (simp add: on_refresh_def settle_def)

lemma api_await_retry: "retry cfg \<Longrightarrow> api_await srv st cfg = (settle cfg (srv (calls st)), st)"
  by (simp add: api_await.simps on_response_retry)


lemma calls_refresh_failed [simp]: "calls (refresh_failed st) = calls st"
  by (simp add: refresh_failed_def removeItem_def)

lemma on_response_Settled_inv:
  "on_response st cfg nr = Settled res st1 \<Longrightarrow> calls st1 = calls st"
  by (auto simp: on_response_def Let_def split: sum.splits if_splits)

lemma on_response_Refreshing_inv:
  assumes "on_response st cfg nr = Refreshing orig rcfg st1"
  shows "\<not> retry cfg" and "orig = cfg\<lparr>retry := True\<rparr>"
    and "rcfg = refresh_request (to_string (getItem ''refresh_token'' st))"
    and "st1 = st\<lparr>calls := calls st @ [Bare rcfg]\<rparr>"
    and "truthy (getItem ''refresh_token'' st)"
    and "\<exists>r. nr = Response r \<and> status r = 401"
  using assms
  by (auto simp: on_response_def Let_def split: sum.splits if_splits net_result.splits)

lemma on_refresh_Failed_inv:
  "on_refresh st orig rcfg nr = Failed e st1 \<Longrightarrow> st1 = refresh_failed st"
  by (auto simp: on_refresh_def Let_def split: sum.splits if_splits prod.splits)

lemma on_refresh_Resent_inv:
  assumes "on_refresh st orig rcfg nr = Resent cfg2 st2"
  shows "\<exists>r. nr = Response r \<and> ok r \<and> \<not> nullish (data r) \<and>
           cfg2 = orig\<lparr>Authorization := Some (bearer (to_string (get_prop (data r) ''access'')))\<rparr> \<and>
           st2 = st\<lparr>localStorage := (localStorage st)(''access_token'' \<mapsto> to_string (get_prop (data r) ''access'')),
                    calls := calls st @ [Api cfg2]\<rparr>"
proof (cases nr)
  case (Response r)
  show ?thesis
  proof (cases "ok r \<and> \<not> nullish (data r)")
    case True
    with assms Response show ?thesis
      by (auto simp: on_refresh_ok Let_def)
  next
    case False
    with assms Response show ?thesis
      by (auto simp: on_refresh_def settle_def split: if_splits)
  qed
next
  case NoResponse
  with assms show ?thesis by (simp add: on_refresh_def settle_def)
qed

lemma api_await_sent:
  "\<exists>new. calls (snd (api_await srv st cfg)) = calls st @ new \<and>
     (new = [] \<or> (\<exists>rt. new = [Bare (refresh_request rt)]) \<or>
      (\<exists>rt c. new = [Bare (refresh_request rt), Api c] \<and> retry c))"
proof (cases "on_response st cfg (srv (calls st))")
  case (Settled res st1)
  then show ?thesis
    by (simp add: api_await.simps on_response_Settled_inv)
next
  case (Refreshing orig rcfg st1)
  note inv = on_response_Refreshing_inv [OF Refreshing]
  show ?thesis
  proof (cases "on_refresh st1 orig rcfg (srv (calls st1))")
    case (Failed e st2)
    with Refreshing inv on_refresh_Failed_inv [OF Failed] show ?thesis
      by (auto simp: api_await.simps)
  next
    case (Resent cfg2 st2)
    from on_refresh_Resent_inv [OF Resent] inv have r: "retry cfg2"
      and c: "calls st2 = calls st @ [Bare rcfg, Api cfg2]"
      by auto
    have "api_await srv st cfg = api_await srv st2 cfg2"
      using Refreshing Resent by (simp add: api_await.simps [of srv st cfg])
    with r c inv(3) show ?thesis
      by (auto simp: api_await_retry)
  qed
qed


lemma request_interceptor_overwrite:
  "(request_interceptor st cfg)\<lparr>Authorization := x\<rparr> = cfg\<lparr>Authorization := x\<rparr>"
  by (simp add: request_interceptor_def Let_def)

lemma retry_request_interceptor [simp]: "retry (request_interceptor st cfg) = retry cfg"
  by (simp add: request_interceptor_def Let_def)

lemma request_interceptor_calls [simp]:
  "request_interceptor (st\<lparr>calls := cs\<rparr>) cfg = request_interceptor st cfg"
  by (simp add: request_interceptor_def getItem_def)

lemma api_sent:
  "\<exists>new. calls (snd (api srv st cfg)) = calls st @ Api (request_interceptor st cfg) # new \<and>
     (new = [] \<or> (\<exists>rt. new = [Bare (refresh_request rt)]) \<or>
      (\<exists>rt c. new = [Bare (refresh_request rt), Api c] \<and> retry c))"
  using api_await_sent [of srv "st\<lparr>calls := calls st @ [Api (request_interceptor st cfg)]\<rparr>"
      "request_interceptor st cfg"]
  by (auto simp: api_def dispatch_def Let_def)

lemma is_refresh_simps [simp]:
  "is_refresh (Bare (refresh_request rt))" "\<not> is_refresh (Api c)"
  "is_api (Api c)" "\<not> is_api (Bare c)"
  by (simp_all add: is_refresh_def is_api_def refresh_request_def)

lemma api_bounds:
  "calls (snd (api srv st cfg)) = calls st @ sent_since st (snd (api srv st cfg)) \<and>
   length (filter is_refresh (sent_since st (snd (api srv st cfg)))) \<le> 1 \<and>
   length (filter is_api (sent_since st (snd (api srv st cfg)))) \<le> 2"
proof -
  from api_sent [of srv st cfg] obtain new where
    c: "calls (snd (api srv st cfg)) = calls st @ Api (request_interceptor st cfg) # new"
    and n: "new = [] \<or> (\<exists>rt. new = [Bare (refresh_request rt)]) \<or>
      (\<exists>rt c. new = [Bare (refresh_request rt), Api c] \<and> retry c)"
    by blast
  from c have s: "sent_since st (snd (api srv st cfg)) = Api (request_interceptor st cfg) # new"
    by (simp add: sent_since_def)
  from n show ?thesis
    unfolding s using c by auto
qed

lemma api_cycle:
  assumes fresh: "\<not> retry cfg"
    and c1: "c1 = request_interceptor st cfg"
    and r1: "srv (calls st @ [Api c1]) = Response r1" "status r1 = 401"
    and rt: "localStorage st ''refresh_token'' = Some rt" "rt \<noteq> []"
    and r2: "srv (calls st @ [Api c1, Bare (refresh_request rt)]) = Response r2" "ok r2"
      "\<not> nullish (data r2)"
    and a: "a = to_string (get_prop (data r2) ''access'')"
    and c3: "c3 = cfg\<lparr>Authorization := Some (bearer a), retry := True\<rparr>"
  shows "api srv st cfg =
     (settle c3 (srv (calls st @ [Api c1, Bare (refresh_request rt), Api c3])),
      st\<lparr>localStorage := (localStorage st)(''access_token'' \<mapsto> a),
         calls := calls st @ [Api c1, Bare (refresh_request rt), Api c3]\<rparr>)"
proof -
  let ?st1 = "st\<lparr>calls := calls st @ [Api c1]\<rparr>"
  let ?rq = "refresh_request rt"
  let ?st2 = "?st1\<lparr>calls := calls ?st1 @ [Bare ?rq]\<rparr>"
  let ?st3 = "?st2\<lparr>localStorage := (localStorage ?st2)(''access_token'' \<mapsto> a),
                  calls := calls ?st2 @ [Api c3]\<rparr>"
  have s1: "api srv st cfg = api_await srv ?st1 c1"
    by (simp add: api_def dispatch_def Let_def c1)
  have "\<not> retry c1" using fresh c1 by simp
  then have s2: "on_response ?st1 c1 (srv (calls ?st1)) = Refreshing (c1\<lparr>retry := True\<rparr>) ?rq ?st2"
    using r1 rt by (simp add: on_response_401_token)
  have c3': "(c1\<lparr>retry := True\<rparr>)\<lparr>Authorization := Some (bearer a)\<rparr> = c3"
    by (simp add: c1 c3 request_interceptor_def Let_def)
  have s3: "on_refresh ?st2 (c1\<lparr>retry := True\<rparr>) ?rq (srv (calls ?st2)) = Resent c3 ?st3"
    using r2 by (simp add: on_refresh_ok Let_def a [symmetric] c3')
  have "api_await srv ?st1 c1 = api_await srv ?st3 c3"
    using s2 s3 by (simp add: api_await.simps [of srv ?st1 c1])
  also have "\<dots> = (settle c3 (srv (calls ?st3)), ?st3)"
    by (rule api_await_retry) (simp add: c3)
  finally show ?thesis
    using s1 by simp
qed

lemma refresh_failed_simps [simp]:
  "localStorage (refresh_failed st) ''access_token'' = None"
  "localStorage (refresh_failed st) ''refresh_token'' = None"
  "href (refresh_failed st) = ''/login''"
  "user (refresh_failed st) = user st"
  "isLoading (refresh_failed st) = isLoading st"
  by (simp_all add: refresh_failed_def removeItem_def)

lemma getItem_calls [simp]: "getItem k (st\<lparr>calls := cs\<rparr>) = getItem k st"
  by (simp add: getItem_def)

lemma api_no_token:
  assumes "\<not> retry cfg" and "c1 = request_interceptor st cfg"
    and "srv (calls st @ [Api c1]) = Response r1" and "status r1 = 401"
    and "\<not> truthy (getItem ''refresh_token'' st)"
  shows "api srv st cfg =
    (Inl (Error ''No refresh token''), refresh_failed (st\<lparr>calls := calls st @ [Api c1]\<rparr>))"
  using assms
  by (simp add: api_def dispatch_def Let_def api_await.simps on_response_401_no_token)

lemma api_refresh_failed:
  assumes "\<not> retry cfg" and "c1 = request_interceptor st cfg"
    and "srv (calls st @ [Api c1]) = Response r1" and "status r1 = 401"
    and "localStorage st ''refresh_token'' = Some rt" and "rt \<noteq> []"
    and "on_refresh (st\<lparr>calls := calls st @ [Api c1, Bare (refresh_request rt)]\<rparr>)
           (c1\<lparr>retry := True\<rparr>) (refresh_request rt)
           (srv (calls st @ [Api c1, Bare (refresh_request rt)])) = Failed e st'"
  shows "api srv st cfg = (Inl e, st')"
proof -
  let ?st1 = "st\<lparr>calls := calls st @ [Api c1]\<rparr>"
  have "on_response ?st1 c1 (srv (calls ?st1)) =
      Refreshing (c1\<lparr>retry := True\<rparr>) (refresh_request rt)
        (?st1\<lparr>calls := calls ?st1 @ [Bare (refresh_request rt)]\<rparr>)"
    using assms by (simp add: on_response_401_token)
  then have "api_await srv ?st1 c1 = (Inl e, st')"
    using assms(7) by (simp add: api_await.simps [of srv ?st1 c1])
  then show ?thesis
    by (simp add: api_def dispatch_def Let_def assms(2))
qed

lemma api_refresh_rejected:
  assumes "\<not> retry cfg" and "c1 = request_interceptor st cfg"
    and "srv (calls st @ [Api c1]) = Response r1" and "status r1 = 401"
    and "localStorage st ''refresh_token'' = Some rt" and "rt \<noteq> []"
    and "settle (refresh_request rt) (srv (calls st @ [Api c1, Bare (refresh_request rt)])) = Inl e"
  shows "api srv st cfg =
    (Inl e, refresh_failed (st\<lparr>calls := calls st @ [Api c1, Bare (refresh_request rt)]\<rparr>))"
  using assms
  by (intro api_refresh_failed [of cfg c1 st srv r1 rt]) (simp_all add: on_refresh_rejected)

lemma api_refresh_null:
  assumes "\<not> retry cfg" and "c1 = request_interceptor st cfg"
    and "srv (calls st @ [Api c1]) = Response r1" and "status r1 = 401"
    and "localStorage st ''refresh_token'' = Some rt" and "rt \<noteq> []"
    and "srv (calls st @ [Api c1, Bare (refresh_request rt)]) = Response r2"
    and "ok r2" and "nullish (data r2)"
  shows "api srv st cfg =
    (Inl TypeError, refresh_failed (st\<lparr>calls := calls st @ [Api c1, Bare (refresh_request rt)]\<rparr>))"
  using assms
  by (intro api_refresh_failed [of cfg c1 st srv r1 rt]) (simp_all add: on_refresh_null)

lemma truthy_getItem:
  "truthy (getItem k st) \<longleftrightarrow> (\<exists>s. localStorage st k = Some s \<and> s \<noteq> [])"
  by (simp add: getItem_def split: option.splits)

lemma to_string_getItem:
  "localStorage st k = Some s \<Longrightarrow> to_string (getItem k st) = s"
  by (simp add: getItem_def)

lemma api_expired_session0:
  "api (scripted [Response unauthorized, Response unauthorized]) session0 get_projects =
     (Inl (AxiosError (refresh_request ''R1'') (Some unauthorized)),
      refresh_failed (session0\<lparr>calls :=
        [Api (get_projects\<lparr>Authorization := Some (bearer ''A1'')\<rparr>),
         Bare (refresh_request ''R1'')]\<rparr>))"
proof -
  let ?srv = "scripted [Response unauthorized, Response unauthorized]"
  let ?c1 = "get_projects\<lparr>Authorization := Some (bearer ''A1'')\<rparr>"
  have c1: "?c1 = request_interceptor session0 get_projects"
    by (simp add: request_interceptor_def getItem_def session0_def)
  have e: "calls session0 = []"
    by (simp add: session0_def)
  have u: "status unauthorized = 401"
    by (simp add: unauthorized_def)
  have "api ?srv session0 get_projects =
    (Inl (AxiosError (refresh_request ''R1'') (Some unauthorized)),
     refresh_failed (session0\<lparr>calls := calls session0 @ [Api ?c1, Bare (refresh_request ''R1'')]\<rparr>))"
  proof (rule api_refresh_rejected [where ?r1.0 = unauthorized])
    show "\<not> retry get_projects" by (simp add: get_projects_def)
    show "?c1 = request_interceptor session0 get_projects" by (rule c1)
    show "?srv (calls session0 @ [Api ?c1]) = Response unauthorized"
      by (simp add: scripted_def e)
    show "status unauthorized = 401" by (rule u)
    show "localStorage session0 ''refresh_token'' = Some ''R1''" by (simp add: session0_def)
    show "''R1'' \<noteq> []" by simp
    show "settle (refresh_request ''R1'')
        (?srv (calls session0 @ [Api ?c1, Bare (refresh_request ''R1'')]))
        = Inl (AxiosError (refresh_request ''R1'') (Some unauthorized))"
      by (simp add: scripted_def e settle_401 [OF u])
  qed
  then show ?thesis by (simp add: e)
qed

section \<open>The session code, step by step\<close>

lemma on_response_no_refresh_token:
  assumes "\<not> truthy (getItem ''refresh_token'' st)"
  shows "on_response st cfg nr = Settled (settle cfg nr) st \<or>
         on_response st cfg nr = Settled (Inl (Error ''No refresh token'')) (refresh_failed st)"
  using assms
  by (auto simp: on_response_def Let_def split: sum.splits net_result.splits)

lemma api_await_no_refresh_token:
  assumes "\<not> truthy (getItem ''refresh_token'' st)"
  shows "api_await srv st cfg = (settle cfg (srv (calls st)), st) \<or>
         api_await srv st cfg = (Inl (Error ''No refresh token''), refresh_failed st)"
  using on_response_no_refresh_token [OF assms, of cfg "srv (calls st)"]
  by (auto simp: api_await.simps)

lemma dispatch_simps [simp]:
  "localStorage (snd (dispatch st cfg)) = localStorage st"
  "user (snd (dispatch st cfg)) = user st"
  "href (snd (dispatch st cfg)) = href st"
  "isLoading (snd (dispatch st cfg)) = isLoading st"
  "calls (snd (dispatch st cfg)) = calls st @ [Api (request_interceptor st cfg)]"
  "fst (dispatch st cfg) = request_interceptor st cfg"
  by (simp_all add: dispatch_def Let_def)

lemma request_interceptor_no_token:
  "localStorage st ''access_token'' = None \<Longrightarrow> request_interceptor st cfg = cfg"
  by (simp add: request_interceptor_def getItem_def)

lemma request_interceptor_token:
  "localStorage st ''access_token'' = Some t \<Longrightarrow> t \<noteq> [] \<Longrightarrow>
   request_interceptor st cfg = cfg\<lparr>Authorization := Some (bearer t)\<rparr>"
  by (simp add: request_interceptor_def getItem_def)

lemma logout_sync_eq:
  "logout_sync st =
     (logout_request,
      st\<lparr>localStorage := (localStorage st)(''access_token'' := None, ''refresh_token'' := None),
         user := Null, calls := calls st @ [Api logout_request], href := ''/''\<rparr>)"
  by (simp add: logout_sync_def Let_def dispatch_def removeItem_def request_interceptor_def
      getItem_def)

lemma logout_sync_simps [simp]:
  "fst (logout_sync st) = logout_request"
  "localStorage (snd (logout_sync st)) ''access_token'' = None"
  "localStorage (snd (logout_sync st)) ''refresh_token'' = None"
  "user (snd (logout_sync st)) = Null"
  "href (snd (logout_sync st)) = ''/''"
  "isLoading (snd (logout_sync st)) = isLoading st"
  "calls (snd (logout_sync st)) = calls st @ [Api logout_request]"
  by (simp_all add: logout_sync_eq)

lemma getItem_absent: "localStorage st k = None \<Longrightarrow> getItem k st = Null"
  by (simp add: getItem_def)

lemma logout_cases:
  "logout srv st = snd (logout_sync st) \<or> logout srv st = refresh_failed (snd (logout_sync st))"
proof -
  have "\<not> truthy (getItem ''refresh_token'' (snd (logout_sync st)))"
    by (simp add: getItem_absent)
  from api_await_no_refresh_token [OF this, of srv logout_request]
  show ?thesis
    by (auto simp: logout_def split_def)
qed

lemma logout_simps [simp]:
  "localStorage (logout srv st) ''access_token'' = None"
  "localStorage (logout srv st) ''refresh_token'' = None"
  "user (logout srv st) = Null"
  "isLoading (logout srv st) = isLoading st"
  "calls (logout srv st) = calls st @ [Api logout_request]"
  using logout_cases [of srv st] by auto

lemma api_direct:
  assumes "c1 = request_interceptor st cfg"
    and "\<forall>r. srv (calls st @ [Api c1]) = Response r \<longrightarrow> status r \<noteq> 401"
  shows "api srv st cfg =
    (settle c1 (srv (calls st @ [Api c1])), st\<lparr>calls := calls st @ [Api c1]\<rparr>)"
  using assms
  by (simp add: api_def dispatch_def Let_def api_await.simps on_response_other)

lemma api_fulfilled:
  assumes "c1 = request_interceptor st cfg" and "srv (calls st @ [Api c1]) = Response r"
    and "ok r"
  shows "api srv st cfg = (Inr r, st\<lparr>calls := calls st @ [Api c1]\<rparr>)"
proof -
  have "status r \<noteq> 401" using assms(3) by (auto simp: ok_def)
  with assms have "api srv st cfg =
    (settle c1 (srv (calls st @ [Api c1])), st\<lparr>calls := calls st @ [Api c1]\<rparr>)"
    by (intro api_direct) auto
  with assms show ?thesis by (simp add: settle_def)
qed

lemma api_state:
  "user (snd (api srv st cfg)) = user st"
  "isLoading (snd (api srv st cfg)) = isLoading st"
proof -
  have u: "user (snd (api_await srv st' cfg')) = user st' \<and>
     isLoading (snd (api_await srv st' cfg')) = isLoading st'" for st' cfg'
  proof (cases "on_response st' cfg' (srv (calls st'))")
    case (Settled res st1)
    then have "st1 = st' \<or> st1 = refresh_failed st'"
      by (auto simp: on_response_def Let_def split: sum.splits if_splits)
    with Settled show ?thesis
      by (auto simp: api_await.simps)
  next
    case (Refreshing orig rcfg st1)
    note inv = on_response_Refreshing_inv [OF Refreshing]
    show ?thesis
    proof (cases "on_refresh st1 orig rcfg (srv (calls st1))")
      case (Failed e st2)
      with Refreshing inv on_refresh_Failed_inv [OF Failed] show ?thesis
        by (auto simp: api_await.simps)
    next
      case (Resent cfg2 st2)
      from on_refresh_Resent_inv [OF Resent] inv have r: "retry cfg2"
        and c: "user st2 = user st'" "isLoading st2 = isLoading st'"
        by auto
      have "api_await srv st' cfg' = api_await srv st2 cfg2"
        using Refreshing Resent by (simp add: api_await.simps [of srv st' cfg'])
      with r c show ?thesis
        by (simp add: api_await_retry)
    qed
  qed
  show "user (snd (api srv st cfg)) = user st"
    and "isLoading (snd (api srv st cfg)) = isLoading st"
    using u [of "snd (dispatch st cfg)" "fst (dispatch st cfg)"]
    by (simp_all add: api_def split_def Let_def)
qed

lemma initAuth_eq:
  assumes "localStorage st ''access_token'' = Some t" and "t \<noteq> []"
  shows "initAuth srv st =
     (case api srv st profile_request of
        (Inr r, st1) \<Rightarrow> st1\<lparr>user := data r, isLoading := False\<rparr>
      | (Inl e, st1) \<Rightarrow> (logout srv (logout srv st1))\<lparr>isLoading := False\<rparr>)"
  using assms
  by (simp add: initAuth_def refreshUser_def refreshUser_settled_def getItem_def Let_def
      split: prod.splits sum.splits)

lemma login_settled_stores_both_tokens:
  assumes "\<not> nullish (data r)"
  shows "localStorage (snd (login_settled st (Inr r))) ''access_token''
      = Some (to_string (get_prop (data r) ''access'')) \<and>
    localStorage (snd (login_settled st (Inr r))) ''refresh_token''
      = Some (to_string (get_prop (data r) ''refresh'')) \<and>
    user (snd (login_settled st (Inr r))) = get_prop (data r) ''user'' \<and>
    success (fst (login_settled st (Inr r)))"
  using assms by (simp add: login_settled_def Let_def setItem_def)

lemma register_settled_stores_both_tokens:
  assumes "\<not> nullish (data r)"
  shows "localStorage (snd (register_settled st (Inr r))) ''access_token''
      = Some (to_string (get_prop (data r) ''access'')) \<and>
    localStorage (snd (register_settled st (Inr r))) ''refresh_token''
      = Some (to_string (get_prop (data r) ''refresh'')) \<and>
    user (snd (register_settled st (Inr r))) = get_prop (data r) ''user'' \<and>
    success (fst (register_settled st (Inr r)))"
  using assms by (simp add: register_settled_def Let_def setItem_def)

lemma truthy_or_js [simp]: "truthy b \<Longrightarrow> truthy (or_js a b)"
  by (simp add: or_js_def)

lemma truthy_login_error_message [simp]: "truthy (login_error_message e)"
  by (simp add: login_error_message_def)

lemma refresh_failed_absent:
  "localStorage st ''access_token'' = None \<Longrightarrow> localStorage st ''refresh_token'' = None \<Longrightarrow>
   localStorage (refresh_failed st) = localStorage st"
  by (auto simp: refresh_failed_def removeItem_def)

lemma api_rejected_without_tokens:
  assumes a: "localStorage st ''access_token'' = None"
    and r: "localStorage st ''refresh_token'' = None"
    and n: "\<forall>r. srv (calls st @ [Api cfg]) = Response r \<longrightarrow> \<not> ok r"
    and f: "\<not> retry cfg"
  shows "\<exists>e st1. api srv st cfg = (Inl e, st1) \<and> localStorage st1 = localStorage st \<and>
     calls st1 = calls st @ [Api cfg]"
proof -
  have c1: "cfg = request_interceptor st cfg"
    using a by (simp add: request_interceptor_no_token)
  show ?thesis
  proof (cases "\<exists>r. srv (calls st @ [Api cfg]) = Response r \<and> status r = 401")
    case True
    then obtain r1 where r1: "srv (calls st @ [Api cfg]) = Response r1" "status r1 = 401"
      by blast
    have "\<not> truthy (getItem ''refresh_token'' st)"
      using r by (simp add: getItem_absent)
    from api_no_token [of cfg cfg st srv r1, OF f c1 r1 this] a r show ?thesis
      by (simp add: refresh_failed_absent)
  next
    case False
    then have "\<forall>r. srv (calls st @ [Api cfg]) = Response r \<longrightarrow> status r \<noteq> 401"
      by blast
    from api_direct [of cfg st cfg srv, OF c1 this] n show ?thesis
      by (auto simp: settle_def split: net_result.splits)
  qed
qed

lemma api_refreshed_session0:
  "api (scripted [Response unauthorized, Response refreshed, Response profile_ok])
      session0 get_projects =
     (Inr profile_ok,
      session0\<lparr>localStorage := (localStorage session0)(''access_token'' \<mapsto> ''A2''),
         calls := [Api (get_projects\<lparr>Authorization := Some (bearer ''A1'')\<rparr>),
                   Bare (refresh_request ''R1''),
                   Api (get_projects\<lparr>Authorization := Some (bearer ''A2''), retry := True\<rparr>)]\<rparr>)"
proof -
  let ?srv = "scripted [Response unauthorized, Response refreshed, Response profile_ok]"
  let ?c1 = "get_projects\<lparr>Authorization := Some (bearer ''A1'')\<rparr>"
  let ?c3 = "get_projects\<lparr>Authorization := Some (bearer ''A2''), retry := True\<rparr>"
  have e: "calls session0 = []"
    by (simp add: session0_def)
  have "api ?srv session0 get_projects =
     (settle ?c3 (?srv (calls session0 @ [Api ?c1, Bare (refresh_request ''R1''), Api ?c3])),
      session0\<lparr>localStorage := (localStorage session0)(''access_token'' \<mapsto> ''A2''),
         calls := calls session0 @ [Api ?c1, Bare (refresh_request ''R1''), Api ?c3]\<rparr>)"
  proof (rule api_cycle [where ?r1.0 = unauthorized and ?r2.0 = refreshed])
    show "\<not> retry get_projects" by (simp add: get_projects_def)
    show "?c1 = request_interceptor session0 get_projects"
      by (simp add: request_interceptor_def getItem_def session0_def)
    show "?srv (calls session0 @ [Api ?c1]) = Response unauthorized"
      by (simp add: scripted_def e)
    show "status unauthorized = 401" by (simp add: unauthorized_def)
    show "localStorage session0 ''refresh_token'' = Some ''R1''" by (simp add: session0_def)
    show "''R1'' \<noteq> []" by simp
    show "?srv (calls session0 @ [Api ?c1, Bare (refresh_request ''R1'')]) = Response refreshed"
      by (simp add: scripted_def e)
    show "ok refreshed" by (simp add: ok_def refreshed_def)
    show "\<not> nullish (data refreshed)" by (simp add: nullish_def refreshed_def)
    show "''A2'' = to_string (get_prop (data refreshed) ''access'')"
      by (simp add: refreshed_def)
    show "?c3 = get_projects\<lparr>Authorization := Some (bearer ''A2''), retry := True\<rparr>" by simp
  qed
  then show ?thesis
    by (simp add: e scripted_def settle_def ok_def profile_ok_def)
qed

lemma late_profile_response_eq:
  "late_profile_response st nr =
     (case on_response (snd (logout_sync (snd (dispatch st profile_request))))
             (request_interceptor st profile_request) nr of
        Settled res st3 \<Rightarrow> snd (refreshUser_settled (\<lambda>s. snd (logout_sync s)) st3 res)
      | Refreshing originalRequest rcfg st3 \<Rightarrow> st3)"
  by (simp add: late_profile_response_def split_def Let_def)

lemma late_profile_response_ok:
  assumes "ok r"
  shows "late_profile_response st (Response r) =
     (snd (logout_sync (snd (dispatch st profile_request))))\<lparr>user := data r\<rparr>"
proof -
  have "status r \<noteq> 401" using assms by (auto simp: ok_def)
  then show ?thesis
    using assms
    by (simp add: late_profile_response_eq on_response_other settle_def refreshUser_settled_def)
qed

lemma late_profile_response_failed:
  assumes "\<forall>r. nr = Response r \<longrightarrow> \<not> ok r"
  shows "user (late_profile_response st nr) = Null \<and>
     localStorage (late_profile_response st nr) ''access_token'' = None \<and>
     localStorage (late_profile_response st nr) ''refresh_token'' = None"
proof -
  let ?st2 = "snd (logout_sync (snd (dispatch st profile_request)))"
  let ?cfg = "request_interceptor st profile_request"
  have s: "\<exists>e. settle ?cfg nr = Inl e"
    using assms by (auto simp: settle_def split: net_result.splits)
  have "\<not> truthy (getItem ''refresh_token'' ?st2)"
    by (simp add: getItem_absent)
  from on_response_no_refresh_token [OF this, of ?cfg nr] s show ?thesis
    by (auto simp: late_profile_response_eq refreshUser_settled_def)
qed

lemma dispatch_all_props:
  "localStorage (snd (dispatch_all st cfgs)) = localStorage st \<and>
   calls (snd (dispatch_all st cfgs)) = calls st @ map Api (fst (dispatch_all st cfgs)) \<and>
   length (fst (dispatch_all st cfgs)) = length cfgs \<and>
   map retry (fst (dispatch_all st cfgs)) = map retry cfgs"
proof (induction cfgs arbitrary: st)
  case Nil
  show ?case by simp
next
  case (Cons cfg cfgs)
  from Cons [of "snd (dispatch st cfg)"] show ?case
    by (simp add: split_def Let_def)
qed

lemma on_responses_all_unauthorized:
  assumes "localStorage st ''refresh_token'' = Some rt" and "rt \<noteq> []"
    and "\<forall>(cfg, nr) \<in> set arrivals. \<not> retry cfg \<and> (\<exists>r. nr = Response r \<and> status r = 401)"
  shows "calls (snd (on_responses st arrivals))
      = calls st @ replicate (length arrivals) (Bare (refresh_request rt)) \<and>
    list_all is_refreshing (fst (on_responses st arrivals)) \<and>
    length (fst (on_responses st arrivals)) = length arrivals \<and>
    localStorage (snd (on_responses st arrivals)) = localStorage st"
  using assms
proof (induction arrivals arbitrary: st)
  case Nil
  show ?case by simp
next
  case (Cons a arrivals)
  obtain cfg nr where a: "a = (cfg, nr)" by (cases a)
  from Cons.prems(3) a obtain r where f: "\<not> retry cfg" and r: "nr = Response r" "status r = 401"
    by auto
  let ?st1 = "st\<lparr>calls := calls st @ [Bare (refresh_request rt)]\<rparr>"
  have o: "on_response st cfg nr = Refreshing (cfg\<lparr>retry := True\<rparr>) (refresh_request rt) ?st1"
    unfolding r(1) using f r(2) Cons.prems(1,2) by (rule on_response_401_token)
  have "localStorage ?st1 ''refresh_token'' = Some rt"
    using Cons.prems(1) by simp
  from Cons.IH [OF this Cons.prems(2)] Cons.prems(3)
  have "calls (snd (on_responses ?st1 arrivals))
      = calls ?st1 @ replicate (length arrivals) (Bare (refresh_request rt)) \<and>
    list_all is_refreshing (fst (on_responses ?st1 arrivals)) \<and>
    length (fst (on_responses ?st1 arrivals)) = length arrivals \<and>
    localStorage (snd (on_responses ?st1 arrivals)) = localStorage ?st1"
    by simp
  then show ?case
    by (simp add: a o split_def Let_def)
qed

lemma in_flight_group_refreshes:
  assumes rt: "localStorage st ''refresh_token'' = Some rt" "rt \<noteq> []"
    and f: "\<forall>cfg \<in> set cfgs. \<not> retry cfg"
    and l: "length answers = length cfgs"
    and u: "\<forall>nr \<in> set answers. \<exists>r. nr = Response r \<and> status r = 401"
  shows "sent_since st (snd (in_flight_group st cfgs answers))
      = map Api (fst (dispatch_all st cfgs)) @ replicate (length cfgs) (Bare (refresh_request rt)) \<and>
    list_all is_refreshing (fst (in_flight_group st cfgs answers)) \<and>
    length (fst (in_flight_group st cfgs answers)) = length cfgs"
proof -
  let ?sent = "fst (dispatch_all st cfgs)"
  let ?st1 = "snd (dispatch_all st cfgs)"
  note d = dispatch_all_props [of st cfgs]
  have g: "in_flight_group st cfgs answers = on_responses ?st1 (zip ?sent answers)"
    by (simp add: in_flight_group_def split_def Let_def)
  have "\<forall>c \<in> set ?sent. \<not> retry c"
  proof
    fix c assume "c \<in> set ?sent"
    then have "retry c \<in> set (map retry ?sent)" by simp
    with d have "retry c \<in> retry ` set cfgs" by simp
    with f show "\<not> retry c" by auto
  qed
  with u have a: "\<forall>(cfg, nr) \<in> set (zip ?sent answers).
      \<not> retry cfg \<and> (\<exists>r. nr = Response r \<and> status r = 401)"
    by (auto dest: set_zip_leftD set_zip_rightD)
  have "localStorage ?st1 ''refresh_token'' = Some rt"
    using d rt by simp
  from on_responses_all_unauthorized [OF this rt(2) a] d l show ?thesis
    unfolding g by (simp add: sent_since_def)
qed

lemma filter_is_refresh_sent [simp]:
  "filter is_refresh (map Api cs @ replicate n (Bare (refresh_request rt)))
     = replicate n (Bare (refresh_request rt))"
  by (induction cs) simp_all

lemma two_in_flight_session0:
  "sent_since session0 (snd (in_flight_group session0 [get_projects, get_inspectors]
      [Response unauthorized, Response unauthorized]))
    = map Api (fst (dispatch_all session0 [get_projects, get_inspectors])) @
      replicate (length [get_projects, get_inspectors]) (Bare (refresh_request ''R1''))"
proof -
  have "sent_since session0 (snd (in_flight_group session0 [get_projects, get_inspectors]
      [Response unauthorized, Response unauthorized]))
    = map Api (fst (dispatch_all session0 [get_projects, get_inspectors])) @
      replicate (length [get_projects, get_inspectors]) (Bare (refresh_request ''R1'')) \<and>
    list_all is_refreshing (fst (in_flight_group session0 [get_projects, get_inspectors]
      [Response unauthorized, Response unauthorized])) \<and>
    length (fst (in_flight_group session0 [get_projects, get_inspectors]
      [Response unauthorized, Response unauthorized])) = length [get_projects, get_inspectors]"
    by (rule in_flight_group_refreshes)
       (simp_all add: session0_def get_projects_def get_inspectors_def unauthorized_def)
  then show ?thesis by blast
qed

section \<open>The claims\<close>

text \<open>
  C1. A request of the instance that is answered 401 goes through the refresh-and-retry
  cycle at most once. Whatever the server does, one call of \<open>api\<close> sends at most one
  refresh request and puts the request on the wire at most twice. The handler only
  refreshes for a request without \<open>_retry\<close>, and sets \<open>_retry\<close> on it before the
  refresh request leaves; the request it resends keeps the mark, and for a marked
  request the handler settles the promise with what came back, in whatever state the
  client is by then. When the request is answered 401, a refresh token is stored
  and the refresh succeeds, exactly three requests are sent: the original, the refresh,
  and the original again with \<open>_retry\<close> set and the new access token in its header;
  the caller gets the outcome of the resent request, and a 401 for the resent request is
  passed on as the rejection, with no further request.
\<close>

theorem api_refresh_and_retry_at_most_once:
  "(calls (snd (api srv st cfg)) = calls st @ sent_since st (snd (api srv st cfg)) \<and>
    length (filter is_refresh (sent_since st (snd (api srv st cfg)))) \<le> 1 \<and>
    length (filter is_api (sent_since st (snd (api srv st cfg)))) \<le> 2) \<and>
   (\<forall>nr originalRequest rcfg st1.
      on_response st cfg nr = Refreshing originalRequest rcfg st1 \<longrightarrow>
        \<not> retry cfg \<and> retry originalRequest) \<and>
   (\<forall>st1 originalRequest rcfg nr cfg2 st2.
      on_refresh st1 originalRequest rcfg nr = Resent cfg2 st2 \<longrightarrow>
        retry cfg2 = retry originalRequest \<and> calls st2 = calls st1 @ [Api cfg2]) \<and>
   (\<forall>st1 cfg1 nr. retry cfg1 \<longrightarrow> on_response st1 cfg1 nr = Settled (settle cfg1 nr) st1) \<and>
   (\<not> retry cfg \<and> c1 = request_interceptor st cfg \<and>
    srv (calls st @ [Api c1]) = Response r1 \<and> status r1 = 401 \<and>
    localStorage st ''refresh_token'' = Some rt \<and> rt \<noteq> [] \<and>
    srv (calls st @ [Api c1, Bare (refresh_request rt)]) = Response r2 \<and> ok r2 \<and>
    \<not> nullish (data r2) \<and>
    a = to_string (get_prop (data r2) ''access'') \<and>
    c3 = cfg\<lparr>Authorization := Some (bearer a), retry := True\<rparr> \<longrightarrow>
      api srv st cfg =
        (settle c3 (srv (calls st @ [Api c1, Bare (refresh_request rt), Api c3])),
         st\<lparr>localStorage := (localStorage st)(''access_token'' \<mapsto> a),
            calls := calls st @ [Api c1, Bare (refresh_request rt), Api c3]\<rparr>) \<and>
      (\<forall>r3. srv (calls st @ [Api c1, Bare (refresh_request rt), Api c3]) = Response r3 \<and>
            status r3 = 401 \<longrightarrow>
         fst (api srv st cfg) = Inl (AxiosError c3 (Some r3))))"
proof (intro conjI allI impI)
  show "calls (snd (api srv st cfg)) = calls st @ sent_since st (snd (api srv st cfg))"
    and "length (filter is_refresh (sent_since st (snd (api srv st cfg)))) \<le> 1"
    and "length (filter is_api (sent_since st (snd (api srv st cfg)))) \<le> 2"
    using api_bounds [of srv st cfg] by simp_all
next
  fix nr originalRequest rcfg st1
  assume r: "on_response st cfg nr = Refreshing originalRequest rcfg st1"
  show "\<not> retry cfg" by (rule on_response_Refreshing_inv(1) [OF r])
  show "retry originalRequest" using on_response_Refreshing_inv(2) [OF r] by simp
next
  fix st1 originalRequest rcfg nr cfg2 st2
  assume r: "on_refresh st1 originalRequest rcfg nr = Resent cfg2 st2"
  from on_refresh_Resent_inv [OF r]
  show "retry cfg2 = retry originalRequest" and "calls st2 = calls st1 @ [Api cfg2]"
    by auto
next
  fix st1 and cfg1 :: config and nr
  assume "retry cfg1"
  then show "on_response st1 cfg1 nr = Settled (settle cfg1 nr) st1"
    by (rule on_response_retry)
next
  assume h: "\<not> retry cfg \<and> c1 = request_interceptor st cfg \<and>
    srv (calls st @ [Api c1]) = Response r1 \<and> status r1 = 401 \<and>
    localStorage st ''refresh_token'' = Some rt \<and> rt \<noteq> [] \<and>
    srv (calls st @ [Api c1, Bare (refresh_request rt)]) = Response r2 \<and> ok r2 \<and>
    \<not> nullish (data r2) \<and>
    a = to_string (get_prop (data r2) ''access'') \<and>
    c3 = cfg\<lparr>Authorization := Some (bearer a), retry := True\<rparr>"
  then show eq: "api srv st cfg =
        (settle c3 (srv (calls st @ [Api c1, Bare (refresh_request rt), Api c3])),
         st\<lparr>localStorage := (localStorage st)(''access_token'' \<mapsto> a),
            calls := calls st @ [Api c1, Bare (refresh_request rt), Api c3]\<rparr>)"
    using api_cycle [of cfg c1 st srv r1 rt r2 a c3] by blast
  fix r3
  assume "srv (calls st @ [Api c1, Bare (refresh_request rt), Api c3]) = Response r3 \<and>
            status r3 = 401"
  with eq show "fst (api srv st cfg) = Inl (AxiosError c3 (Some r3))"
    by (simp add: settle_401)
qed

theorem api_refresh_and_retry_at_most_once_witness:
  "fst (api (scripted [Response unauthorized, Response refreshed, Response unauthorized])
          session0 get_projects)
     = Inl (AxiosError (get_projects\<lparr>Authorization := Some (bearer ''A2''), retry := True\<rparr>)
             (Some unauthorized)) \<and>
   calls (snd (api (scripted [Response unauthorized, Response refreshed, Response unauthorized])
          session0 get_projects))
     = [Api (get_projects\<lparr>Authorization := Some (bearer ''A1'')\<rparr>),
        Bare (refresh_request ''R1''),
        Api (get_projects\<lparr>Authorization := Some (bearer ''A2''), retry := True\<rparr>)]"
proof -
  let ?srv = "scripted [Response unauthorized, Response refreshed, Response unauthorized]"
  let ?c1 = "get_projects\<lparr>Authorization := Some (bearer ''A1'')\<rparr>"
  let ?c3 = "get_projects\<lparr>Authorization := Some (bearer ''A2''), retry := True\<rparr>"
  have c1: "?c1 = request_interceptor session0 get_projects"
    by (simp add: request_interceptor_def getItem_def session0_def)
  have h: "\<not> retry get_projects \<and> ?c1 = request_interceptor session0 get_projects \<and>
    ?srv (calls session0 @ [Api ?c1]) = Response unauthorized \<and> status unauthorized = 401 \<and>
    localStorage session0 ''refresh_token'' = Some ''R1'' \<and> ''R1'' \<noteq> [] \<and>
    ?srv (calls session0 @ [Api ?c1, Bare (refresh_request ''R1'')]) = Response refreshed \<and>
    ok refreshed \<and> \<not> nullish (data refreshed) \<and>
    ''A2'' = to_string (get_prop (data refreshed) ''access'') \<and>
    ?c3 = get_projects\<lparr>Authorization := Some (bearer ''A2''), retry := True\<rparr>"
    unfolding c1 [symmetric]
    by (simp add: get_projects_def scripted_def session0_def unauthorized_def refreshed_def
        ok_def nullish_def)
  have s: "?srv (calls session0 @ [Api ?c1, Bare (refresh_request ''R1''), Api ?c3])
      = Response unauthorized"
    by (simp add: scripted_def session0_def)
  have u: "status unauthorized = 401"
    by (simp add: unauthorized_def)
  have e: "calls session0 = []"
    by (simp add: session0_def)
  from api_refresh_and_retry_at_most_once
    [of ?srv session0 get_projects ?c1 unauthorized "''R1''" refreshed "''A2''" ?c3] h
  have "api ?srv session0 get_projects =
        (settle ?c3 (?srv (calls session0 @ [Api ?c1, Bare (refresh_request ''R1''), Api ?c3])),
         session0\<lparr>localStorage := (localStorage session0)(''access_token'' \<mapsto> ''A2''),
            calls := calls session0 @ [Api ?c1, Bare (refresh_request ''R1''), Api ?c3]\<rparr>)"
    by blast
  then show ?thesis
    unfolding s by (simp add: settle_401 [OF u] e)
qed

text \<open>
  C2, as the code has it. The handler keeps no record of a refresh in flight. When the
  requests of a group are each answered 401 before any refresh request has been
  answered, and a refresh token is stored, every handler sends a refresh request of its
  own with that token: \<open>N\<close> requests give \<open>N\<close> refresh requests, and every handler
  is left waiting for its own. When the answer to a refresh request arrives, the handler
  that sent it resends its original request with the access token of that answer.
\<close>

theorem each_unauthorized_request_refreshes:
  "localStorage st ''refresh_token'' = Some rt \<and> rt \<noteq> [] \<and>
   (\<forall>cfg \<in> set cfgs. \<not> retry cfg) \<and> length answers = length cfgs \<and>
   (\<forall>nr \<in> set answers. \<exists>r. nr = Response r \<and> status r = 401) \<longrightarrow>
     filter is_refresh (sent_since st (snd (in_flight_group st cfgs answers)))
       = replicate (length cfgs) (Bare (refresh_request rt)) \<and>
     list_all is_refreshing (fst (in_flight_group st cfgs answers)) \<and>
     length (fst (in_flight_group st cfgs answers)) = length cfgs \<and>
     (\<forall>st1 originalRequest rcfg r.
        ok r \<and> \<not> nullish (data r) \<longrightarrow>
          (\<exists>st2. on_refresh st1 originalRequest rcfg (Response r) =
             Resent (originalRequest
                      \<lparr>Authorization := Some (bearer (to_string (get_prop (data r) ''access'')))\<rparr>)
               st2))"
proof (intro impI conjI allI)
  assume h: "localStorage st ''refresh_token'' = Some rt \<and> rt \<noteq> [] \<and>
   (\<forall>cfg \<in> set cfgs. \<not> retry cfg) \<and> length answers = length cfgs \<and>
   (\<forall>nr \<in> set answers. \<exists>r. nr = Response r \<and> status r = 401)"
  then have g: "sent_since st (snd (in_flight_group st cfgs answers))
      = map Api (fst (dispatch_all st cfgs)) @ replicate (length cfgs) (Bare (refresh_request rt)) \<and>
    list_all is_refreshing (fst (in_flight_group st cfgs answers)) \<and>
    length (fst (in_flight_group st cfgs answers)) = length cfgs"
    by (intro in_flight_group_refreshes) simp_all
  from g show "filter is_refresh (sent_since st (snd (in_flight_group st cfgs answers)))
       = replicate (length cfgs) (Bare (refresh_request rt))"
    by simp
  from g show "list_all is_refreshing (fst (in_flight_group st cfgs answers))"
    and "length (fst (in_flight_group st cfgs answers)) = length cfgs"
    by simp_all
next
  fix st1 originalRequest rcfg and r :: response
  assume "ok r \<and> \<not> nullish (data r)"
  then show "\<exists>st2. on_refresh st1 originalRequest rcfg (Response r) =
             Resent (originalRequest
                      \<lparr>Authorization := Some (bearer (to_string (get_prop (data r) ''access'')))\<rparr>)
               st2"
    by (simp add: on_refresh_ok Let_def)
qed

theorem each_unauthorized_request_refreshes_witness:
  "filter is_refresh (sent_since session0
      (snd (in_flight_group session0 [get_projects, get_inspectors]
         [Response unauthorized, Response unauthorized])))
     = [Bare (refresh_request ''R1''), Bare (refresh_request ''R1'')]"
proof -
  have h: "localStorage session0 ''refresh_token'' = Some ''R1'' \<and> ''R1'' \<noteq> [] \<and>
   (\<forall>cfg \<in> set [get_projects, get_inspectors]. \<not> retry cfg) \<and>
   length [Response unauthorized, Response unauthorized] = length [get_projects, get_inspectors] \<and>
   (\<forall>nr \<in> set [Response unauthorized, Response unauthorized].
      \<exists>r. nr = Response r \<and> status r = 401)"
    by (simp add: session0_def get_projects_def get_inspectors_def unauthorized_def)
  note r = mp [OF each_unauthorized_request_refreshes
      [of session0 "''R1''" "[get_projects, get_inspectors]"
        "[Response unauthorized, Response unauthorized]"] h]
  from r show ?thesis
    by (simp add: numeral_2_eq_2)
qed

text \<open>
  The claim as the specification states it fails: two requests in flight, both answered
  401, give two refresh requests, not one.
\<close>

theorem one_refresh_per_group_counterexample:
  "length (filter is_refresh (sent_since session0
      (snd (in_flight_group session0 [get_projects, get_inspectors]
         [Response unauthorized, Response unauthorized])))) = 2"
  by (simp add: two_in_flight_session0)

text \<open>
  C3, as the code has it. A refresh attempt fails when no refresh token is stored, when
  the refresh request is rejected or not answered, or when it is answered with a null
  body. In each case the handler removes both stored tokens and sets
  \<open>window.location.href\<close> to \<open>/login\<close>; it leaves the user held by \<open>AuthProvider\<close>
  as it was; the promise of the original call is rejected with the refresh failure itself
  (\<open>Error('No refresh token')\<close>, the error of the refresh request, or the
  \<open>TypeError\<close>); the original request is not sent again.
\<close>

theorem failed_refresh_clears_storage:
  "\<not> retry cfg \<and> c1 = request_interceptor st cfg \<and>
   srv (calls st @ [Api c1]) = Response r1 \<and> status r1 = 401 \<and>
   rq = refresh_request (to_string (getItem ''refresh_token'' st)) \<and>
   nr2 = srv (calls st @ [Api c1, Bare rq]) \<and>
   (\<not> truthy (getItem ''refresh_token'' st) \<or>
    (\<forall>r2. nr2 = Response r2 \<longrightarrow> \<not> ok r2 \<or> nullish (data r2))) \<longrightarrow>
     localStorage (snd (api srv st cfg)) ''access_token'' = None \<and>
     localStorage (snd (api srv st cfg)) ''refresh_token'' = None \<and>
     href (snd (api srv st cfg)) = ''/login'' \<and>
     user (snd (api srv st cfg)) = user st \<and>
     fst (api srv st cfg) =
       Inl (if \<not> truthy (getItem ''refresh_token'' st) then Error ''No refresh token''
            else case nr2 of
                   NoResponse \<Rightarrow> AxiosError rq None
                 | Response r2 \<Rightarrow> if ok r2 then TypeError else AxiosError rq (Some r2)) \<and>
     filter is_api (sent_since st (snd (api srv st cfg))) = [Api c1] \<and>
     length (filter is_refresh (sent_since st (snd (api srv st cfg)))) \<le> 1"
proof (intro impI)
  assume "\<not> retry cfg \<and> c1 = request_interceptor st cfg \<and>
   srv (calls st @ [Api c1]) = Response r1 \<and> status r1 = 401 \<and>
   rq = refresh_request (to_string (getItem ''refresh_token'' st)) \<and>
   nr2 = srv (calls st @ [Api c1, Bare rq]) \<and>
   (\<not> truthy (getItem ''refresh_token'' st) \<or>
    (\<forall>r2. nr2 = Response r2 \<longrightarrow> \<not> ok r2 \<or> nullish (data r2)))"
  then have h: "\<not> retry cfg" "c1 = request_interceptor st cfg"
      "srv (calls st @ [Api c1]) = Response r1" "status r1 = 401"
    and rq: "rq = refresh_request (to_string (getItem ''refresh_token'' st))"
    and nr2: "nr2 = srv (calls st @ [Api c1, Bare rq])"
    and f: "\<not> truthy (getItem ''refresh_token'' st) \<or>
      (\<forall>r2. nr2 = Response r2 \<longrightarrow> \<not> ok r2 \<or> nullish (data r2))"
    by blast+
  let ?goal = "\<lambda>out. localStorage (snd out) ''access_token'' = None \<and>
     localStorage (snd out) ''refresh_token'' = None \<and>
     href (snd out) = ''/login'' \<and>
     user (snd out) = user st \<and>
     fst out =
       Inl (if \<not> truthy (getItem ''refresh_token'' st) then Error ''No refresh token''
            else case nr2 of
                   NoResponse \<Rightarrow> AxiosError rq None
                 | Response r2 \<Rightarrow> if ok r2 then TypeError else AxiosError rq (Some r2)) \<and>
     filter is_api (sent_since st (snd out)) = [Api c1] \<and>
     length (filter is_refresh (sent_since st (snd out))) \<le> 1"
  show "?goal (api srv st cfg)"
  proof (cases "truthy (getItem ''refresh_token'' st)")
    case False
    with h have "api srv st cfg =
      (Inl (Error ''No refresh token''), refresh_failed (st\<lparr>calls := calls st @ [Api c1]\<rparr>))"
      by (intro api_no_token)
    with False show ?thesis
      by (simp add: sent_since_def)
  next
    case True
    then obtain rt where rt: "localStorage st ''refresh_token'' = Some rt" "rt \<noteq> []"
      by (auto simp: truthy_getItem)
    then have rq': "rq = refresh_request rt"
      by (simp add: rq to_string_getItem)
    from True f have f': "\<forall>r2. nr2 = Response r2 \<longrightarrow> \<not> ok r2 \<or> nullish (data r2)"
      by simp
    let ?st2 = "st\<lparr>calls := calls st @ [Api c1, Bare (refresh_request rt)]\<rparr>"
    have s2: "srv (calls st @ [Api c1, Bare (refresh_request rt)]) = nr2"
      using nr2 rq' by simp
    have out: "api srv st cfg =
      (Inl (case nr2 of
              NoResponse \<Rightarrow> AxiosError rq None
            | Response r2 \<Rightarrow> if ok r2 then TypeError else AxiosError rq (Some r2)),
       refresh_failed ?st2)"
    proof (cases nr2)
      case NoResponse
      then have "settle (refresh_request rt) (srv (calls st @ [Api c1, Bare (refresh_request rt)]))
          = Inl (AxiosError rq None)"
        unfolding s2 using rq' by (simp add: settle_def)
      from api_refresh_rejected [OF h rt this] NoResponse show ?thesis
        by simp
    next
      case (Response r2)
      show ?thesis
      proof (cases "ok r2")
        case True
        with f' Response have n: "nullish (data r2)" by simp
        have "srv (calls st @ [Api c1, Bare (refresh_request rt)]) = Response r2"
          unfolding s2 by (rule Response)
        from api_refresh_null [OF h rt this True n] Response True show ?thesis
          by simp
      next
        case False
        then have "settle (refresh_request rt) (srv (calls st @ [Api c1, Bare (refresh_request rt)]))
            = Inl (AxiosError rq (Some r2))"
          unfolding s2 using rq' Response by (simp add: settle_def)
        from api_refresh_rejected [OF h rt this] Response False show ?thesis
          by simp
      qed
    qed
    show ?thesis
      unfolding out using True
      by (simp add: sent_since_def)
  qed
qed

theorem failed_refresh_clears_storage_witness:
  "localStorage (snd (api (scripted [Response unauthorized, Response unauthorized])
      session0 get_projects)) ''access_token'' = None \<and>
   localStorage (snd (api (scripted [Response unauthorized, Response unauthorized])
      session0 get_projects)) ''refresh_token'' = None \<and>
   href (snd (api (scripted [Response unauthorized, Response unauthorized])
      session0 get_projects)) = ''/login'' \<and>
   fst (api (scripted [Response unauthorized, Response unauthorized]) session0 get_projects)
     = Inl (AxiosError (refresh_request ''R1'') (Some unauthorized))"
proof -
  let ?srv = "scripted [Response unauthorized, Response unauthorized]"
  let ?c1 = "get_projects\<lparr>Authorization := Some (bearer ''A1'')\<rparr>"
  have c1: "?c1 = request_interceptor session0 get_projects"
    by (simp add: request_interceptor_def getItem_def session0_def)
  have e: "calls session0 = []"
    by (simp add: session0_def)
  have g: "getItem ''refresh_token'' session0 = Str ''R1''"
    by (simp add: getItem_def session0_def)
  have n: "\<not> ok unauthorized"
    by (simp add: ok_def unauthorized_def)
  have h: "\<not> retry get_projects \<and> ?c1 = request_interceptor session0 get_projects \<and>
    ?srv (calls session0 @ [Api ?c1]) = Response unauthorized \<and> status unauthorized = 401 \<and>
    refresh_request ''R1'' = refresh_request (to_string (getItem ''refresh_token'' session0)) \<and>
    Response unauthorized = ?srv (calls session0 @ [Api ?c1, Bare (refresh_request ''R1'')]) \<and>
    (\<not> truthy (getItem ''refresh_token'' session0) \<or>
     (\<forall>r2. Response unauthorized = Response r2 \<longrightarrow> \<not> ok r2 \<or> nullish (data r2)))"
    unfolding c1 [symmetric] e g
    by (simp add: get_projects_def scripted_def unauthorized_def n [unfolded unauthorized_def])
  note r = mp [OF failed_refresh_clears_storage
    [of get_projects ?c1 session0 ?srv unauthorized "refresh_request ''R1''"
      "Response unauthorized"] h]
  from r show ?thesis
    unfolding g by (simp add: n)
qed

text \<open>
  The claim as the specification states it fails: after a failed refresh the user in
  memory is the one that was there before, not \<open>null\<close>.
\<close>

theorem failed_refresh_keeps_user_counterexample:
  "fst (api (scripted [Response unauthorized, Response unauthorized]) session0 get_projects)
     = Inl (AxiosError (refresh_request ''R1'') (Some unauthorized)) \<and>
   user (snd (api (scripted [Response unauthorized, Response unauthorized]) session0 get_projects))
     = Obj [(''id'', Num ''7''), (''email'', Str ''amina@example.com'')] \<and>
   user (snd (api (scripted [Response unauthorized, Response unauthorized]) session0 get_projects))
     \<noteq> Null"
  by (simp add: api_expired_session0) (simp add: session0_def)

text \<open>
  C4 at the input where the code departs from it. The session holds the tokens \<open>A1\<close>
  and \<open>R1\<close>; a request is answered 401 and the refresh request is answered with the
  new pair \<open>A2\<close>, \<open>R2\<close>. The handler stores \<open>A2\<close> and leaves \<open>R1\<close> in place: the
  rotated refresh token is dropped.
\<close>

theorem refresh_keeps_the_old_refresh_token:
  "get_prop (data refreshed) ''refresh'' = Str ''R2'' \<and>
   fst (api (scripted [Response unauthorized, Response refreshed, Response profile_ok])
      session0 get_projects) = Inr profile_ok \<and>
   localStorage (snd (api (scripted [Response unauthorized, Response refreshed, Response profile_ok])
      session0 get_projects)) ''access_token'' = Some ''A2'' \<and>
   localStorage (snd (api (scripted [Response unauthorized, Response refreshed, Response profile_ok])
      session0 get_projects)) ''refresh_token'' = Some ''R1''"
  by (simp add: api_refreshed_session0) (simp add: session0_def refreshed_def)

text \<open>
  C5, as the code has it. \<open>refreshUser\<close> does not look at what happened while its
  request was in flight. When \<open>logout\<close> runs in between and the profile request is then
  answered with a 2xx status, the body of the answer becomes the user again; the stored
  tokens stay erased. When it is answered with another status, or not at all,
  \<open>refreshUser\<close> calls \<open>logout\<close> and the user stays \<open>null\<close>.
\<close>

theorem late_profile_response_is_applied:
  "(ok r \<longrightarrow>
      user (late_profile_response st (Response r)) = data r \<and>
      isAuthenticated (late_profile_response st (Response r)) = truthy (data r) \<and>
      localStorage (late_profile_response st (Response r)) ''access_token'' = None \<and>
      localStorage (late_profile_response st (Response r)) ''refresh_token'' = None) \<and>
   (\<not> ok r \<longrightarrow>
      user (late_profile_response st (Response r)) = Null \<and>
      localStorage (late_profile_response st (Response r)) ''access_token'' = None \<and>
      localStorage (late_profile_response st (Response r)) ''refresh_token'' = None) \<and>
   user (late_profile_response st NoResponse) = Null"
  using late_profile_response_failed [of "Response r" st]
    late_profile_response_failed [of NoResponse st]
  by (auto simp: late_profile_response_ok isAuthenticated_def)

theorem late_profile_response_is_applied_witness:
  "user (late_profile_response session0 (Response profile_ok)) = amina \<and>
   localStorage (late_profile_response session0 (Response profile_ok)) ''access_token'' = None \<and>
   user (late_profile_response session0 (Response server_error)) = Null"
proof -
  have g: "ok profile_ok" by (simp add: ok_def profile_ok_def)
  have b: "\<not> ok server_error" by (simp add: ok_def server_error_def)
  from late_profile_response_is_applied [of profile_ok session0] g
    late_profile_response_is_applied [of server_error session0] b
  show ?thesis
    by (simp add: profile_ok_def)
qed

text \<open>
  The claim as the specification states it fails: a profile answer that arrives after
  \<open>logout\<close> sets the user.
\<close>

theorem late_profile_response_counterexample:
  "user (late_profile_response session0 (Response profile_ok)) \<noteq> Null"
proof -
  have "ok profile_ok" by (simp add: ok_def profile_ok_def)
  then show ?thesis
    by (simp add: late_profile_response_ok profile_ok_def amina_def)
qed

text \<open>
  C6. \<open>login\<close> from a client with no stored token, when the token endpoint does not
  answer with a 2xx status: \<open>localStorage\<close> is as it was, the user is as it was (so a
  client that was not authenticated still is not), the only request sent is the login
  request, and \<open>login\<close> resolves to \<open>{ success: false, error }\<close> with a message that
  is not empty.
\<close>

theorem login_rejected_no_partial_write:
  "localStorage st ''access_token'' = None \<and> localStorage st ''refresh_token'' = None \<and>
   (\<forall>r. srv (calls st @ [Api (login_request c)]) = Response r \<longrightarrow> \<not> ok r) \<longrightarrow>
     localStorage (snd (login srv st c)) = localStorage st \<and>
     user (snd (login srv st c)) = user st \<and>
     isAuthenticated (snd (login srv st c)) = isAuthenticated st \<and>
     success (fst (login srv st c)) = False \<and>
     truthy (error (fst (login srv st c))) \<and>
     sent_since st (snd (login srv st c)) = [Api (login_request c)] \<and>
     isLoading (snd (login srv st c)) = False"
proof (intro impI)
  assume "localStorage st ''access_token'' = None \<and> localStorage st ''refresh_token'' = None \<and>
   (\<forall>r. srv (calls st @ [Api (login_request c)]) = Response r \<longrightarrow> \<not> ok r)"
  then have h: "localStorage (st\<lparr>isLoading := True\<rparr>) ''access_token'' = None"
      "localStorage (st\<lparr>isLoading := True\<rparr>) ''refresh_token'' = None"
      "\<forall>r. srv (calls (st\<lparr>isLoading := True\<rparr>) @ [Api (login_request c)]) = Response r \<longrightarrow> \<not> ok r"
    by simp_all
  have f: "\<not> retry (login_request c)"
    by (simp add: login_request_def)
  from api_rejected_without_tokens [of "st\<lparr>isLoading := True\<rparr>" srv "login_request c", OF h f]
  obtain e st1 where
    a: "api srv (st\<lparr>isLoading := True\<rparr>) (login_request c) = (Inl e, st1)"
    and l: "localStorage st1 = localStorage st"
    and k: "calls st1 = calls st @ [Api (login_request c)]"
    by auto
  from api_state(1) [of srv "st\<lparr>isLoading := True\<rparr>" "login_request c"] a
  have u: "user st1 = user st" by simp
  have "login srv st c =
      (\<lparr>success = False, error = login_error_message e\<rparr>, st1\<lparr>isLoading := False\<rparr>)"
    by (simp add: login_def Let_def a login_settled_def)
  with l k u show "localStorage (snd (login srv st c)) = localStorage st \<and>
     user (snd (login srv st c)) = user st \<and>
     isAuthenticated (snd (login srv st c)) = isAuthenticated st \<and>
     success (fst (login srv st c)) = False \<and>
     truthy (error (fst (login srv st c))) \<and>
     sent_since st (snd (login srv st c)) = [Api (login_request c)] \<and>
     isLoading (snd (login srv st c)) = False"
    by (simp add: isAuthenticated_def sent_since_def)
qed

theorem login_rejected_no_partial_write_witness:
  "localStorage (snd (login (scripted [Response unauthorized]) anonymous0 amina_credentials))
     = Map.empty \<and>
   user (snd (login (scripted [Response unauthorized]) anonymous0 amina_credentials)) = Null \<and>
   success (fst (login (scripted [Response unauthorized]) anonymous0 amina_credentials)) = False"
proof -
  have h: "localStorage anonymous0 ''access_token'' = None \<and>
    localStorage anonymous0 ''refresh_token'' = None \<and>
    (\<forall>r. scripted [Response unauthorized] (calls anonymous0 @ [Api (login_request amina_credentials)])
        = Response r \<longrightarrow> \<not> ok r)"
    by (simp add: anonymous0_def scripted_def ok_def unauthorized_def)
  note r = mp [OF login_rejected_no_partial_write
      [of anonymous0 "scripted [Response unauthorized]" amina_credentials] h]
  from r show ?thesis
    by (simp add: anonymous0_def)
qed

text \<open>
  C7. \<open>handleSubmit\<close> with a password that differs from its confirmation or is shorter
  than 8: the state outside the page is untouched (no request is sent, nothing is
  stored), \<open>register\<close> is not called, and the page shows the validation message.
\<close>

theorem handleSubmit_validates_before_register:
  "password (formData pg) \<noteq> confirmPassword (formData pg) \<or>
   length (password (formData pg)) < 8 \<longrightarrow>
     snd (handleSubmit srv (pg, st)) = st \<and>
     sent_since st (snd (handleSubmit srv (pg, st))) = [] \<and>
     localStorage (snd (handleSubmit srv (pg, st))) = localStorage st \<and>
     pageError (fst (handleSubmit srv (pg, st))) =
       Str (if password (formData pg) \<noteq> confirmPassword (formData pg)
            then ''Passwords do not match''
            else ''Password must be at least 8 characters long'') \<and>
     \<not> pageLoading (fst (handleSubmit srv (pg, st)))"
  by (simp add: handleSubmit_def Let_def sent_since_def)

theorem handleSubmit_validates_before_register_witness:
  "snd (handleSubmit (scripted []) (short_form, anonymous0)) = anonymous0 \<and>
   pageError (fst (handleSubmit (scripted []) (short_form, anonymous0)))
     = Str ''Password must be at least 8 characters long''"
proof -
  have h: "password (formData short_form) \<noteq> confirmPassword (formData short_form) \<or>
    length (password (formData short_form)) < 8"
    by (simp add: short_form_def)
  have p: "password (formData short_form) = confirmPassword (formData short_form)"
    by (simp add: short_form_def)
  note r = mp [OF handleSubmit_validates_before_register
      [of short_form "scripted []" anonymous0] h]
  from r show ?thesis
    by (simp add: p)
qed

text \<open>
  C8. \<open>logout\<close> removes both tokens and sets the user to \<open>null\<close> before it sends the
  notification: the notification is the last request in the log and carries no
  \<open>Authorization\<close> header, whatever was stored. Whatever comes back for the
  notification, the handler settles without sending anything, the tokens stay absent and
  the user stays \<open>null\<close>; \<open>logout\<close> returns nothing to its caller.
\<close>

theorem logout_erases_before_notifying:
  "(fst (logout_sync st) = logout_request \<and>
    Authorization (fst (logout_sync st)) = None \<and>
    localStorage (snd (logout_sync st)) ''access_token'' = None \<and>
    localStorage (snd (logout_sync st)) ''refresh_token'' = None \<and>
    user (snd (logout_sync st)) = Null \<and>
    calls (snd (logout_sync st)) = calls st @ [Api (fst (logout_sync st))]) \<and>
   (\<exists>res st2. on_response (snd (logout_sync st)) (fst (logout_sync st)) nr = Settled res st2 \<and>
      localStorage st2 ''access_token'' = None \<and>
      localStorage st2 ''refresh_token'' = None \<and>
      user st2 = Null \<and>
      calls st2 = calls (snd (logout_sync st))) \<and>
   (localStorage (logout srv st) ''access_token'' = None \<and>
    localStorage (logout srv st) ''refresh_token'' = None \<and>
    user (logout srv st) = Null \<and>
    \<not> isAuthenticated (logout srv st) \<and>
    sent_since st (logout srv st) = [Api logout_request])"
proof (intro conjI)
  have "\<not> truthy (getItem ''refresh_token'' (snd (logout_sync st)))"
    by (simp add: getItem_absent)
  from on_response_no_refresh_token [OF this, of logout_request nr]
  show "\<exists>res st2. on_response (snd (logout_sync st)) (fst (logout_sync st)) nr = Settled res st2 \<and>
      localStorage st2 ''access_token'' = None \<and>
      localStorage st2 ''refresh_token'' = None \<and>
      user st2 = Null \<and>
      calls st2 = calls (snd (logout_sync st))"
    by auto
qed (simp_all add: logout_request_def isAuthenticated_def sent_since_def)

theorem logout_erases_before_notifying_witness:
  "localStorage (logout (scripted [Response unauthorized]) session0) ''access_token'' = None \<and>
   localStorage (logout (scripted [Response unauthorized]) session0) ''refresh_token'' = None \<and>
   user (logout (scripted [Response unauthorized]) session0) = Null \<and>
   sent_since session0 (logout (scripted [Response unauthorized]) session0)
     = [Api logout_request]"
  using logout_erases_before_notifying
    [of session0 "Response unauthorized" "scripted [Response unauthorized]"]
  by blast

text \<open>
  C9. \<open>initAuth\<close> with a stored access token that is not the empty string: the first
  request sent is the profile request with that token in its header. When the call of
  the profile endpoint is fulfilled, the body of the answer becomes the user and nothing
  else changes after the call; when it is rejected, for whatever reason, both tokens are
  removed and the user is \<open>null\<close>. In both cases \<open>isLoading\<close> ends \<open>false\<close>.
\<close>

theorem initAuth_restores_or_clears:
  "localStorage st ''access_token'' = Some t \<and> t \<noteq> [] \<longrightarrow>
     (\<exists>rest. sent_since st (initAuth srv st)
        = Api (profile_request\<lparr>Authorization := Some (bearer t)\<rparr>) # rest) \<and>
     isLoading (initAuth srv st) = False \<and>
     (\<forall>r. fst (api srv st profile_request) = Inr r \<longrightarrow>
        initAuth srv st = (snd (api srv st profile_request))\<lparr>user := data r, isLoading := False\<rparr> \<and>
        user (initAuth srv st) = data r \<and>
        isAuthenticated (initAuth srv st) = truthy (data r)) \<and>
     (\<forall>e. fst (api srv st profile_request) = Inl e \<longrightarrow>
        localStorage (initAuth srv st) ''access_token'' = None \<and>
        localStorage (initAuth srv st) ''refresh_token'' = None \<and>
        user (initAuth srv st) = Null \<and>
        \<not> isAuthenticated (initAuth srv st))"
proof (intro impI)
  assume "localStorage st ''access_token'' = Some t \<and> t \<noteq> []"
  then have t: "localStorage st ''access_token'' = Some t" "t \<noteq> []"
    by simp_all
  note eq = initAuth_eq [OF t, of srv]
  obtain res st1 where a: "api srv st profile_request = (res, st1)"
    by (cases "api srv st profile_request")
  from api_sent [of srv st profile_request] a obtain new where
    c: "calls st1 = calls st @ Api (profile_request\<lparr>Authorization := Some (bearer t)\<rparr>) # new"
    by (auto simp: request_interceptor_token [OF t])
  show "(\<exists>rest. sent_since st (initAuth srv st)
        = Api (profile_request\<lparr>Authorization := Some (bearer t)\<rparr>) # rest) \<and>
     isLoading (initAuth srv st) = False \<and>
     (\<forall>r. fst (api srv st profile_request) = Inr r \<longrightarrow>
        initAuth srv st = (snd (api srv st profile_request))\<lparr>user := data r, isLoading := False\<rparr> \<and>
        user (initAuth srv st) = data r \<and>
        isAuthenticated (initAuth srv st) = truthy (data r)) \<and>
     (\<forall>e. fst (api srv st profile_request) = Inl e \<longrightarrow>
        localStorage (initAuth srv st) ''access_token'' = None \<and>
        localStorage (initAuth srv st) ''refresh_token'' = None \<and>
        user (initAuth srv st) = Null \<and>
        \<not> isAuthenticated (initAuth srv st))"
  proof (cases res)
    case (Inr r)
    with eq a c show ?thesis
      by (simp add: sent_since_def isAuthenticated_def)
  next
    case (Inl e)
    with eq a c show ?thesis
      by (simp add: sent_since_def isAuthenticated_def)
  qed
qed

theorem initAuth_restores_or_clears_witness:
  "user (initAuth (scripted [Response profile_ok]) reloaded0) = amina \<and>
   isAuthenticated (initAuth (scripted [Response profile_ok]) reloaded0) \<and>
   localStorage (initAuth (scripted [Response profile_ok]) reloaded0) ''access_token''
     = Some ''A1'' \<and>
   localStorage (initAuth (scripted [Response server_error]) reloaded0) ''access_token''
     = None \<and>
   localStorage (initAuth (scripted [Response server_error]) reloaded0) ''refresh_token''
     = None \<and>
   user (initAuth (scripted [Response server_error]) reloaded0) = Null"
proof -
  let ?c1 = "profile_request\<lparr>Authorization := Some (bearer ''A1'')\<rparr>"
  have t: "localStorage reloaded0 ''access_token'' = Some ''A1'' \<and> ''A1'' \<noteq> []"
    by (simp add: reloaded0_def)
  have c1: "?c1 = request_interceptor reloaded0 profile_request"
    by (simp add: request_interceptor_def getItem_def reloaded0_def)
  have e: "calls reloaded0 = []"
    by (simp add: reloaded0_def)
  have good: "api (scripted [Response profile_ok]) reloaded0 profile_request
      = (Inr profile_ok, reloaded0\<lparr>calls := calls reloaded0 @ [Api ?c1]\<rparr>)"
    by (rule api_fulfilled [OF c1]) (simp_all add: scripted_def e ok_def profile_ok_def)
  have bad: "api (scripted [Response server_error]) reloaded0 profile_request
      = (settle ?c1 (scripted [Response server_error] (calls reloaded0 @ [Api ?c1])),
         reloaded0\<lparr>calls := calls reloaded0 @ [Api ?c1]\<rparr>)"
    by (rule api_direct [OF c1]) (simp add: scripted_def e server_error_def)
  have bad': "fst (api (scripted [Response server_error]) reloaded0 profile_request)
      = Inl (AxiosError ?c1 (Some server_error))"
    unfolding bad by (simp add: scripted_def e settle_def ok_def server_error_def)
  note g = mp [OF initAuth_restores_or_clears
      [of reloaded0 "''A1''" "scripted [Response profile_ok]"] t]
  note b = mp [OF initAuth_restores_or_clears
      [of reloaded0 "''A1''" "scripted [Response server_error]"] t]
  from g have "\<forall>r. fst (api (scripted [Response profile_ok]) reloaded0 profile_request) = Inr r \<longrightarrow>
      initAuth (scripted [Response profile_ok]) reloaded0
        = (snd (api (scripted [Response profile_ok]) reloaded0 profile_request))
            \<lparr>user := data r, isLoading := False\<rparr> \<and>
        user (initAuth (scripted [Response profile_ok]) reloaded0) = data r \<and>
        isAuthenticated (initAuth (scripted [Response profile_ok]) reloaded0) = truthy (data r)"
    by blast
  then have g': "initAuth (scripted [Response profile_ok]) reloaded0
        = (reloaded0\<lparr>calls := calls reloaded0 @ [Api ?c1]\<rparr>)
            \<lparr>user := data profile_ok, isLoading := False\<rparr> \<and>
      isAuthenticated (initAuth (scripted [Response profile_ok]) reloaded0)
        = truthy (data profile_ok)"
    unfolding good by (simp add: isAuthenticated_def)
  from b have "\<forall>e. fst (api (scripted [Response server_error]) reloaded0 profile_request) = Inl e \<longrightarrow>
        localStorage (initAuth (scripted [Response server_error]) reloaded0) ''access_token'' = None \<and>
        localStorage (initAuth (scripted [Response server_error]) reloaded0) ''refresh_token'' = None \<and>
        user (initAuth (scripted [Response server_error]) reloaded0) = Null \<and>
        \<not> isAuthenticated (initAuth (scripted [Response server_error]) reloaded0)"
    by blast
  then have b': "localStorage (initAuth (scripted [Response server_error]) reloaded0) ''access_token'' = None \<and>
        localStorage (initAuth (scripted [Response server_error]) reloaded0) ''refresh_token'' = None \<and>
        user (initAuth (scripted [Response server_error]) reloaded0) = Null"
    unfolding bad' by simp
  from g' b' show ?thesis
    by (simp add: profile_ok_def amina_def isAuthenticated_def) (simp add: reloaded0_def)
qed

text \<open>
  C10. The refresh request is sent with the bare \<open>axios\<close>, not with the instance: it is
  logged as such, the request interceptor does not run on it, and it carries no
  \<open>Authorization\<close> header. A 401 in answer to it goes to the \<open>catch\<close> block alone:
  the promise is rejected with that error and nothing more is sent.
\<close>

theorem refresh_request_bypasses_interceptors:
  "(\<forall>nr originalRequest rcfg st1.
      on_response st cfg nr = Refreshing originalRequest rcfg st1 \<longrightarrow>
        st1 = st\<lparr>calls := calls st @ [Bare rcfg]\<rparr> \<and> Authorization rcfg = None) \<and>
   (\<forall>st1 originalRequest rcfg r.
      status r = 401 \<longrightarrow>
        on_refresh st1 originalRequest rcfg (Response r)
          = Failed (AxiosError rcfg (Some r)) (refresh_failed st1) \<and>
        calls (refresh_failed st1) = calls st1) \<and>
   (\<not> retry cfg \<and> c1 = request_interceptor st cfg \<and>
    srv (calls st @ [Api c1]) = Response r1 \<and> status r1 = 401 \<and>
    localStorage st ''refresh_token'' = Some rt \<and> rt \<noteq> [] \<and>
    srv (calls st @ [Api c1, Bare (refresh_request rt)]) = Response r2 \<and> status r2 = 401 \<longrightarrow>
      api srv st cfg =
        (Inl (AxiosError (refresh_request rt) (Some r2)),
         refresh_failed (st\<lparr>calls := calls st @ [Api c1, Bare (refresh_request rt)]\<rparr>)))"
proof (intro conjI allI impI)
  fix nr originalRequest rcfg st1
  assume r: "on_response st cfg nr = Refreshing originalRequest rcfg st1"
  show "st1 = st\<lparr>calls := calls st @ [Bare rcfg]\<rparr>"
    by (rule on_response_Refreshing_inv(4) [OF r])
  show "Authorization rcfg = None"
    using on_response_Refreshing_inv(3) [OF r] by (simp add: refresh_request_def)
next
  fix st1 originalRequest rcfg and r :: response
  assume "status r = 401"
  then show "on_refresh st1 originalRequest rcfg (Response r)
          = Failed (AxiosError rcfg (Some r)) (refresh_failed st1)"
    by (simp add: on_refresh_rejected settle_401)
  show "calls (refresh_failed st1) = calls st1"
    by simp
next
  assume "\<not> retry cfg \<and> c1 = request_interceptor st cfg \<and>
    srv (calls st @ [Api c1]) = Response r1 \<and> status r1 = 401 \<and>
    localStorage st ''refresh_token'' = Some rt \<and> rt \<noteq> [] \<and>
    srv (calls st @ [Api c1, Bare (refresh_request rt)]) = Response r2 \<and> status r2 = 401"
  then have h: "\<not> retry cfg" "c1 = request_interceptor st cfg"
    "srv (calls st @ [Api c1]) = Response r1" "status r1 = 401"
    "localStorage st ''refresh_token'' = Some rt" "rt \<noteq> []"
    and r2: "srv (calls st @ [Api c1, Bare (refresh_request rt)]) = Response r2"
      "status r2 = 401"
    by blast+
  from r2 have "settle (refresh_request rt) (srv (calls st @ [Api c1, Bare (refresh_request rt)]))
      = Inl (AxiosError (refresh_request rt) (Some r2))"
    by (simp add: settle_401)
  with h show "api srv st cfg =
        (Inl (AxiosError (refresh_request rt) (Some r2)),
         refresh_failed (st\<lparr>calls := calls st @ [Api c1, Bare (refresh_request rt)]\<rparr>))"
    by (rule api_refresh_rejected)
qed

theorem refresh_request_bypasses_interceptors_witness:
  "api (scripted [Response unauthorized, Response unauthorized]) session0 get_projects =
     (Inl (AxiosError (refresh_request ''R1'') (Some unauthorized)),
      refresh_failed (session0\<lparr>calls :=
        [Api (get_projects\<lparr>Authorization := Some (bearer ''A1'')\<rparr>),
         Bare (refresh_request ''R1'')]\<rparr>)) \<and>
   Authorization (refresh_request ''R1'') = None"
proof -
  let ?srv = "scripted [Response unauthorized, Response unauthorized]"
  let ?c1 = "get_projects\<lparr>Authorization := Some (bearer ''A1'')\<rparr>"
  have c1: "?c1 = request_interceptor session0 get_projects"
    by (simp add: request_interceptor_def getItem_def session0_def)
  have e: "calls session0 = []"
    by (simp add: session0_def)
  have h: "\<not> retry get_projects \<and> ?c1 = request_interceptor session0 get_projects \<and>
    ?srv (calls session0 @ [Api ?c1]) = Response unauthorized \<and> status unauthorized = 401 \<and>
    localStorage session0 ''refresh_token'' = Some ''R1'' \<and> ''R1'' \<noteq> [] \<and>
    ?srv (calls session0 @ [Api ?c1, Bare (refresh_request ''R1'')]) = Response unauthorized \<and>
    status unauthorized = 401"
    unfolding c1 [symmetric] e
    by (simp add: get_projects_def scripted_def session0_def unauthorized_def)
  have "on_response session0 get_projects (Response unauthorized) =
      Refreshing (get_projects\<lparr>retry := True\<rparr>) (refresh_request ''R1'')
        (session0\<lparr>calls := calls session0 @ [Bare (refresh_request ''R1'')]\<rparr>)"
    by (rule on_response_401_token)
       (simp_all add: get_projects_def unauthorized_def session0_def)
  with refresh_request_bypasses_interceptors
    [of session0 get_projects ?c1 ?srv unauthorized "''R1''" unauthorized] h
  show ?thesis
    unfolding e by auto
qed

end
